theory Spec2Isabelle
  imports Main "HOL-Library.Word"
begin

section \<open>The Go runtime as far as the orchestrator uses it\<close>

text \<open>
  An instant (\<^verbatim>\<open>time.Time\<close>) is the number of nanoseconds since the epoch, a
  \<^verbatim>\<open>time.Duration\<close> is a number of nanoseconds held in an int64. Every reading of
  the clock that one operation takes (\<^verbatim>\<open>time.Now()\<close>, \<^verbatim>\<open>time.Since\<close>) is the
  one instant \<open>now\<close> that the operation receives as an argument. Certificate issuance,
  where two readings bound one validity window, receives each reading on its own.
\<close>

type_synonym Time = int
type_synonym Duration = int

definition Second :: Duration where
  "Second = 1000000000"

definition Minute :: Duration where
  "Minute = 60 * Second"

definition Hour :: Duration where
  "Hour = 60 * Minute"

definition maxDuration :: Duration where
  "maxDuration = 2 ^ 63 - 1"

definition minDuration :: Duration where
  "minDuration = - (2 ^ 63)"

text \<open>\<^verbatim>\<open>t.Sub(u)\<close> saturates at the ends of the int64 range.\<close>

definition time_Sub :: "Time \<Rightarrow> Time \<Rightarrow> Duration" where
  "time_Sub t u =
     (if t - u > maxDuration then maxDuration
      else if t - u < minDuration then minDuration
      else t - u)"

definition time_Since :: "Time \<Rightarrow> Time \<Rightarrow> Duration" where
  "time_Since now t = time_Sub now t"

definition time_Add :: "Time \<Rightarrow> Duration \<Rightarrow> Time" where
  "time_Add t d = t + d"

text \<open>
  A call either returns or panics. A panic in one of the background goroutines is not
  recovered anywhere and ends the process.
\<close>

datatype panic = SliceBoundsOutOfRange int

datatype 'a go = Panic panic | Return 'a

section \<open>The data model (the type declarations of the orchestrator)\<close>

type_synonym NodeStatus = string

abbreviation NodeStatusOnline :: NodeStatus where
  "NodeStatusOnline \<equiv> ''online''"

abbreviation NodeStatusOffline :: NodeStatus where
  "NodeStatusOffline \<equiv> ''offline''"

abbreviation NodeStatusDegraded :: NodeStatus where
  "NodeStatusDegraded \<equiv> ''degraded''"

abbreviation NodeStatusMaintenance :: NodeStatus where
  "NodeStatusMaintenance \<equiv> ''maintenance''"

text \<open>
  The float64 percentages are only stored and copied; an integer stands for them.
\<close>

record ResourceUsage =
  Capacity :: string
  Usage :: string
  Percentage :: int

record NodeResources =
  CPU :: ResourceUsage
  Memory :: ResourceUsage
  Storage :: ResourceUsage
  NetworkBandwidth :: string
  GPUs :: int

text \<open>A read of a nil map finds no key, so a nil \<^verbatim>\<open>Labels\<close> map is the empty map.\<close>

record EdgeNode =
  ID :: string
  Name :: string
  Address :: string
  Status :: NodeStatus
  LastHeartbeat :: Time
  Resources :: NodeResources
  Labels :: "string \<rightharpoonup> string"
  Capabilities :: "string list"
  Region :: string
  Zone :: string
  KubernetesVersion :: string
  ContainerRuntime :: string
  CreatedAt :: Time
  UpdatedAt :: Time

type_synonym WorkloadType = string

type_synonym WorkloadStatus = string

abbreviation WorkloadStatusPending :: WorkloadStatus where
  "WorkloadStatusPending \<equiv> ''pending''"

abbreviation WorkloadStatusRunning :: WorkloadStatus where
  "WorkloadStatusRunning \<equiv> ''running''"

abbreviation WorkloadStatusStopped :: WorkloadStatus where
  "WorkloadStatusStopped \<equiv> ''stopped''"

record ResourceList =
  CPU :: string
  Memory :: string

record WorkloadResources =
  Requests :: ResourceList
  Limits :: ResourceList

type_synonym PlacementStrategy = string

abbreviation PlacementStrategyEdgeFirst :: PlacementStrategy where
  "PlacementStrategyEdgeFirst \<equiv> ''edge-first''"

abbreviation PlacementStrategyCloudFirst :: PlacementStrategy where
  "PlacementStrategyCloudFirst \<equiv> ''cloud-first''"

abbreviation PlacementStrategyLoadBalance :: PlacementStrategy where
  "PlacementStrategyLoadBalance \<equiv> ''load-balance''"

abbreviation PlacementStrategyLatency :: PlacementStrategy where
  "PlacementStrategyLatency \<equiv> ''latency-aware''"

abbreviation PlacementStrategyResource :: PlacementStrategy where
  "PlacementStrategyResource \<equiv> ''resource-aware''"

record PlacementConstraint =
  Key :: string
  Operator :: string
  Values :: "string list"

record PlacementPreference =
  Weight :: "32 word"
  Terms :: PlacementConstraint

record PlacementPolicy =
  Strategy :: PlacementStrategy
  Constraints :: "PlacementConstraint list"
  Preferences :: "PlacementPreference list"

record WorkloadDeployment =
  NodeID :: string
  Status :: WorkloadStatus
  Replicas :: "32 word"
  DeployedAt :: Time
  UpdatedAt :: Time

text \<open>
  \<^verbatim>\<open>Environment\<close> and \<^verbatim>\<open>Labels\<close> of a workload are tested against nil, so they are
  optional maps: \<open>None\<close> is the nil map.
\<close>

record Workload =
  ID :: string
  Name :: string
  Namespace :: string
  Type :: WorkloadType
  Image :: string
  Replicas :: "32 word"
  Resources :: WorkloadResources
  Environment :: "(string \<rightharpoonup> string) option"
  Labels :: "(string \<rightharpoonup> string) option"
  Selector :: "string \<rightharpoonup> string"
  Placement :: PlacementPolicy
  Status :: WorkloadStatus
  Deployments :: "WorkloadDeployment list"
  CreatedAt :: Time
  UpdatedAt :: Time

record WorkloadDeploymentRequest =
  Name :: string
  Namespace :: string
  Type :: WorkloadType
  Image :: string
  Replicas :: "32 word"
  Resources :: WorkloadResources
  Environment :: "(string \<rightharpoonup> string) option"
  Labels :: "(string \<rightharpoonup> string) option"
  Placement :: PlacementPolicy

record ScaleWorkloadRequest =
  Replicas :: "32 word"

text \<open>
  The two registries are Go maps from id to a pointer. A \<^verbatim>\<open>range\<close> over a map visits
  every key once, in an order the language leaves open; each loop of the model takes the
  order of that visit as a list of keys.
\<close>

type_synonym NodeMap = "string \<rightharpoonup> EdgeNode"
type_synonym WorkloadMap = "string \<rightharpoonup> Workload"

section \<open>The scheduler and the health sweep of the Go orchestrator\<close>

fun contains :: "string list \<Rightarrow> string \<Rightarrow> bool" where
  "contains [] item = False"
| "contains (s # slice') item = (if s = item then True else contains slice' item)"

fun nodeMatchesConstraints :: "EdgeNode \<Rightarrow> PlacementConstraint list \<Rightarrow> bool" where
  "nodeMatchesConstraints node [] = True"
| "nodeMatchesConstraints node (constraint # constraints) =
     (if Key constraint = ''region'' then
        (if \<not> contains (Values constraint) (Region node) then False
         else nodeMatchesConstraints node constraints)
      else if Key constraint = ''zone'' then
        (if \<not> contains (Values constraint) (Zone node) then False
         else nodeMatchesConstraints node constraints)
      else
        (case EdgeNode.Labels node (Key constraint) of
           Some labelValue \<Rightarrow>
             (if \<not> contains (Values constraint) labelValue then False
              else nodeMatchesConstraints node constraints)
         | None \<Rightarrow> False))"

text \<open>
  \<^verbatim>\<open>candidates[:maxNodes]\<close> is reached only with \<^verbatim>\<open>maxNodes < len(candidates)\<close>; there
  the slice expression panics exactly when the bound is negative.
\<close>

definition selectEdgeFirstNodes :: "EdgeNode list \<Rightarrow> Workload \<Rightarrow> EdgeNode list go" where
  "selectEdgeFirstNodes candidates workload =
     (if length candidates = 0 then Return []
      else
        let maxNodes = sint (Workload.Replicas workload);
            maxNodes = (if maxNodes = 0 then 1 else maxNodes)
        in if int (length candidates) \<le> maxNodes then Return candidates
           else if maxNodes < 0 then Panic (SliceBoundsOutOfRange maxNodes)
           else Return (take (nat maxNodes) candidates))"

definition selectLoadBalancedNodes :: "EdgeNode list \<Rightarrow> Workload \<Rightarrow> EdgeNode list go" where
  "selectLoadBalancedNodes candidates workload = selectEdgeFirstNodes candidates workload"

definition selectResourceAwareNodes :: "EdgeNode list \<Rightarrow> Workload \<Rightarrow> EdgeNode list go" where
  "selectResourceAwareNodes candidates workload = selectEdgeFirstNodes candidates workload"

text \<open>The filtering loop of \<^verbatim>\<open>selectNodesForWorkload\<close>, over the keys in visiting order.\<close>

fun candidateNodes :: "NodeMap \<Rightarrow> string list \<Rightarrow> PlacementConstraint list \<Rightarrow> EdgeNode list" where
  "candidateNodes nodes [] constraints = []"
| "candidateNodes nodes (k # ks) constraints =
     (case nodes k of
        None \<Rightarrow> candidateNodes nodes ks constraints
      | Some node \<Rightarrow>
          (if EdgeNode.Status node = NodeStatusOnline \<and> nodeMatchesConstraints node constraints
           then node # candidateNodes nodes ks constraints
           else candidateNodes nodes ks constraints))"

definition selectNodesForWorkload :: "NodeMap \<Rightarrow> string list \<Rightarrow> Workload \<Rightarrow> EdgeNode list go" where
  "selectNodesForWorkload nodes order workload =
     (let candidates = candidateNodes nodes order (Constraints (Workload.Placement workload));
          strategy = Strategy (Workload.Placement workload)
      in if strategy = PlacementStrategyEdgeFirst then selectEdgeFirstNodes candidates workload
         else if strategy = PlacementStrategyLoadBalance then selectLoadBalancedNodes candidates workload
         else if strategy = PlacementStrategyResource then selectResourceAwareNodes candidates workload
         else selectEdgeFirstNodes candidates workload)"

definition newDeployment :: "Time \<Rightarrow> EdgeNode \<Rightarrow> WorkloadDeployment" where
  "newDeployment now node =
     \<lparr>NodeID = EdgeNode.ID node, WorkloadDeployment.Status = WorkloadStatusRunning,
      WorkloadDeployment.Replicas = 1, DeployedAt = now, WorkloadDeployment.UpdatedAt = now\<rparr>"

text \<open>The deployment loop of \<^verbatim>\<open>scheduleWorkload\<close>: one append per selected node.\<close>

fun deployToNodes :: "Time \<Rightarrow> EdgeNode list \<Rightarrow> Workload \<Rightarrow> Workload" where
  "deployToNodes now [] workload = workload"
| "deployToNodes now (node # nodes) workload =
     deployToNodes now nodes
       (workload\<lparr>Deployments := Deployments workload @ [newDeployment now node]\<rparr>)"

text \<open>
  \<^verbatim>\<open>scheduleWorkload\<close> returns an error value (\<open>None\<close> is nil) and works on the workload
  through its pointer: the second component is the workload after the call.
\<close>

definition scheduleWorkload ::
  "NodeMap \<Rightarrow> string list \<Rightarrow> Time \<Rightarrow> Workload \<Rightarrow> (string option \<times> Workload) go" where
  "scheduleWorkload nodeMap order now workload =
     (case selectNodesForWorkload nodeMap order workload of
        Panic p \<Rightarrow> Panic p
      | Return nodes \<Rightarrow>
          if length nodes = 0
          then Return (Some (''no suitable nodes found for workload '' @ Workload.Name workload), workload)
          else Return (None,
                 (deployToNodes now nodes workload)
                   \<lparr>Workload.Status := WorkloadStatusRunning, Workload.UpdatedAt := now\<rparr>))"

text \<open>
  One scheduling tick. \<open>order\<close> is the visiting order of the workload keys, \<open>nodeOrder k\<close>
  the order in which the node registry is visited while the workload under key \<open>k\<close> is
  scheduled. The result is the list of logged errors and the workload registry after the
  tick.
\<close>

fun scheduleWorkloads ::
  "NodeMap \<Rightarrow> (string \<Rightarrow> string list) \<Rightarrow> Time \<Rightarrow> string list \<Rightarrow> WorkloadMap
     \<Rightarrow> (string list \<times> WorkloadMap) go" where
  "scheduleWorkloads nodeMap nodeOrder now [] workloads = Return ([], workloads)"
| "scheduleWorkloads nodeMap nodeOrder now (k # ks) workloads =
     (case workloads k of
        None \<Rightarrow> scheduleWorkloads nodeMap nodeOrder now ks workloads
      | Some workload \<Rightarrow>
          if Workload.Status workload = WorkloadStatusPending then
            (case scheduleWorkload nodeMap (nodeOrder k) now workload of
               Panic p \<Rightarrow> Panic p
             | Return (err, workload') \<Rightarrow>
                 (case scheduleWorkloads nodeMap nodeOrder now ks (workloads(k \<mapsto> workload')) of
                    Panic p \<Rightarrow> Panic p
                  | Return (errors, workloads') \<Rightarrow>
                      (case err of
                         None \<Rightarrow> Return (errors, workloads')
                       | Some e \<Rightarrow>
                           Return ((''Failed to schedule workload '' @ Workload.Name workload
                                      @ '': '' @ e) # errors, workloads'))))
          else scheduleWorkloads nodeMap nodeOrder now ks workloads)"

fun checkNodeHealth :: "Time \<Rightarrow> string list \<Rightarrow> NodeMap \<Rightarrow> NodeMap" where
  "checkNodeHealth now [] nodes = nodes"
| "checkNodeHealth now (k # ks) nodes =
     (case nodes k of
        None \<Rightarrow> checkNodeHealth now ks nodes
      | Some node \<Rightarrow>
          if time_Since now (LastHeartbeat node) > 2 * Minute then
            (if EdgeNode.Status node \<noteq> NodeStatusOffline
             then checkNodeHealth now ks
                    (nodes(k \<mapsto> node\<lparr>EdgeNode.Status := NodeStatusOffline, EdgeNode.UpdatedAt := now\<rparr>))
             else checkNodeHealth now ks nodes)
          else checkNodeHealth now ks nodes)"

section \<open>The workload handlers of the Go orchestrator\<close>

text \<open>
  \<^verbatim>\<open>c.ShouldBindJSON(&req)\<close> decodes the request body into the request struct, where a
  field that the body leaves out keeps the zero value of its type, and then checks the
  \<^verbatim>\<open>binding\<close> tags of the struct: a field tagged \<^verbatim>\<open>required\<close> fails the check when it holds
  the zero value of its type (the empty string, the number 0). The handlers below receive
  the decoded struct; the two functions are that check, \<open>None\<close> is the nil error.
\<close>

definition bindWorkloadDeploymentRequest :: "WorkloadDeploymentRequest \<Rightarrow> string option" where
  "bindWorkloadDeploymentRequest req =
     (if WorkloadDeploymentRequest.Name req = [] then Some ''Name: failed on the required tag''
      else if WorkloadDeploymentRequest.Type req = [] then Some ''Type: failed on the required tag''
      else if WorkloadDeploymentRequest.Image req = [] then Some ''Image: failed on the required tag''
      else None)"

definition bindScaleWorkloadRequest :: "ScaleWorkloadRequest \<Rightarrow> string option" where
  "bindScaleWorkloadRequest req =
     (if ScaleWorkloadRequest.Replicas req = 0 then Some ''Replicas: failed on the required tag''
      else None)"

datatype response =
    StatusCreated string Workload
  | StatusOK string Workload
  | StatusBadRequest string
  | StatusNotFound string

text \<open>
  \<open>workloadID\<close> is the result of \<^verbatim>\<open>generateID()\<close>. A handler returns its response and
  the workload registry after the call.
\<close>

definition DeployWorkload ::
  "WorkloadDeploymentRequest \<Rightarrow> string \<Rightarrow> Time \<Rightarrow> WorkloadMap \<Rightarrow> response \<times> WorkloadMap" where
  "DeployWorkload req workloadID now workloads =
     (case bindWorkloadDeploymentRequest req of
        Some err \<Rightarrow> (StatusBadRequest err, workloads)
      | None \<Rightarrow>
          let workload =
                \<lparr>Workload.ID = workloadID,
                 Workload.Name = WorkloadDeploymentRequest.Name req,
                 Workload.Namespace = WorkloadDeploymentRequest.Namespace req,
                 Workload.Type = WorkloadDeploymentRequest.Type req,
                 Workload.Image = WorkloadDeploymentRequest.Image req,
                 Workload.Replicas = WorkloadDeploymentRequest.Replicas req,
                 Workload.Resources = WorkloadDeploymentRequest.Resources req,
                 Workload.Environment = WorkloadDeploymentRequest.Environment req,
                 Workload.Labels = WorkloadDeploymentRequest.Labels req,
                 Selector = Map.empty,
                 Workload.Placement = WorkloadDeploymentRequest.Placement req,
                 Workload.Status = WorkloadStatusPending,
                 Deployments = [],
                 Workload.CreatedAt = now,
                 Workload.UpdatedAt = now\<rparr>;
              workload = (if Workload.Namespace workload = []
                          then workload\<lparr>Workload.Namespace := ''default''\<rparr> else workload);
              workload = (if Workload.Replicas workload = 0
                          then workload\<lparr>Workload.Replicas := 1\<rparr> else workload);
              workload = (if Workload.Labels workload = None
                          then workload\<lparr>Workload.Labels := Some Map.empty\<rparr> else workload);
              workload = (if Workload.Environment workload = None
                          then workload\<lparr>Workload.Environment := Some Map.empty\<rparr> else workload);
              workload = (if Strategy (Workload.Placement workload) = []
                          then workload\<lparr>Workload.Placement :=
                                 (Workload.Placement workload)\<lparr>Strategy := PlacementStrategyEdgeFirst\<rparr>\<rparr>
                          else workload);
              workload = workload\<lparr>Selector := Map.empty\<rparr>;
              workload = workload\<lparr>Selector := (Selector workload)(''app'' \<mapsto> Workload.Name workload)\<rparr>;
              workload = workload\<lparr>Selector := (Selector workload)(''workload-id'' \<mapsto> workloadID)\<rparr>
          in (StatusCreated workloadID workload, workloads(workloadID \<mapsto> workload)))"

definition ScaleWorkload ::
  "string \<Rightarrow> ScaleWorkloadRequest \<Rightarrow> Time \<Rightarrow> WorkloadMap \<Rightarrow> response \<times> WorkloadMap" where
  "ScaleWorkload workloadID req now workloads =
     (case bindScaleWorkloadRequest req of
        Some err \<Rightarrow> (StatusBadRequest err, workloads)
      | None \<Rightarrow>
          (case workloads workloadID of
             None \<Rightarrow> (StatusNotFound ''Workload not found'', workloads)
           | Some workload \<Rightarrow>
               let workload = workload\<lparr>Workload.Replicas := ScaleWorkloadRequest.Replicas req,
                                       Workload.Status := WorkloadStatusPending,
                                       Workload.UpdatedAt := now\<rparr>
               in (StatusOK ''Workload scaled successfully'' workload,
                   workloads(workloadID \<mapsto> workload))))"

section \<open>Node certificates\<close>

definition CertValidityPeriod :: Duration where
  "CertValidityPeriod = 365 * 24 * Hour"

definition time_Before :: "Time \<Rightarrow> Time \<Rightarrow> bool" where
  "time_Before t u \<longleftrightarrow> t < u"

definition time_After :: "Time \<Rightarrow> Time \<Rightarrow> bool" where
  "time_After t u \<longleftrightarrow> t > u"

record pkix_Name =
  Organization :: "string list"
  Country :: "string list"
  Province :: "string list"
  Locality :: "string list"
  StreetAddress :: "string list"
  PostalCode :: "string list"
  CommonName :: string

datatype KeyUsage = KeyUsageKeyEncipherment | KeyUsageDigitalSignature

datatype ExtKeyUsage = ExtKeyUsageServerAuth | ExtKeyUsageClientAuth

record x509_Certificate =
  SerialNumber :: int
  Subject :: pkix_Name
  NotBefore :: Time
  NotAfter :: Time
  KeyUsage :: "KeyUsage list"
  ExtKeyUsage :: "ExtKeyUsage list"
  IPAddresses :: "string list"
  DNSNames :: "string list"

text \<open>
  The calls into the Go standard library (\<^verbatim>\<open>rsa.GenerateKey\<close>, \<^verbatim>\<open>x509.CreateCertificate\<close>,
  \<^verbatim>\<open>x509.MarshalPKCS8PrivateKey\<close>, \<^verbatim>\<open>pem.EncodeToMemory\<close>, \<^verbatim>\<open>pem.Decode\<close>,
  \<^verbatim>\<open>x509.ParseCertificate\<close>, the IP address parser) are not part of the repository.
  The DER bytes of a certificate stand for the certificate that parsing them yields, a
  PEM text for the block it holds; a private key is a number. An X.509 certificate
  stores the two ends of its validity as UTCTime or GeneralizedTime, which carry whole
  seconds and no fraction: \<^verbatim>\<open>x509.CreateCertificate\<close> keeps of \<^verbatim>\<open>NotBefore\<close> and
  \<^verbatim>\<open>NotAfter\<close> the whole seconds, and parsing returns those. Whether key generation,
  certificate creation and key marshalling succeed, and which strings are IP addresses,
  is given by a record of library results.
\<close>

datatype der = DERCertificate x509_Certificate | DERPrivateKey nat | DERMalformed

record pem_Block =
  Type :: string
  Bytes :: der

datatype bytes = PEM pem_Block | NoPEM

definition wholeSeconds :: "Time \<Rightarrow> Time" where
  "wholeSeconds t = (t div Second) * Second"

definition x509_CreateCertificate :: "x509_Certificate \<Rightarrow> der" where
  "x509_CreateCertificate template =
     DERCertificate (template\<lparr>NotBefore := wholeSeconds (NotBefore template),
                               NotAfter := wholeSeconds (NotAfter template)\<rparr>)"

definition pem_EncodeToMemory :: "pem_Block \<Rightarrow> bytes" where
  "pem_EncodeToMemory b = PEM b"

fun pem_Decode :: "bytes \<Rightarrow> pem_Block option" where
  "pem_Decode (PEM b) = Some b"
| "pem_Decode NoPEM = None"

fun x509_ParseCertificate :: "der \<Rightarrow> string + x509_Certificate" where
  "x509_ParseCertificate (DERCertificate c) = Inr c"
| "x509_ParseCertificate (DERPrivateKey k) = Inl ''x509: malformed certificate''"
| "x509_ParseCertificate DERMalformed = Inl ''x509: malformed certificate''"

record Library =
  rsa_GenerateKey :: "string + nat"
  x509_CreateCertificate_error :: "string option"
  x509_MarshalPKCS8PrivateKey_error :: "string option"
  ParseIP :: "string \<Rightarrow> string option"
  generateID :: string

record Certificate =
  ID :: string
  NodeID :: string
  Certificate :: bytes
  PrivateKey :: bytes
  IssuedAt :: Time
  ExpiresAt :: Time

type_synonym CertificateMap = "string \<rightharpoonup> Certificate"

text \<open>
  \<^verbatim>\<open>GenerateCertificate\<close> returns an error (\<open>Inl\<close>) or the certificate record together
  with the certificate store after the call. \<open>now\<close> is the reading of the clock for
  \<^verbatim>\<open>NotBefore\<close>, \<open>now'\<close> the following reading for \<^verbatim>\<open>NotAfter\<close>.
\<close>

definition GenerateCertificate ::
  "Library \<Rightarrow> Time \<Rightarrow> Time \<Rightarrow> CertificateMap \<Rightarrow> string \<Rightarrow> string \<Rightarrow> string list
     \<Rightarrow> string list \<Rightarrow> string + (Certificate \<times> CertificateMap)" where
  "GenerateCertificate lib now now' certificates nodeID commonName dnsNames ipAddresses =
     (case rsa_GenerateKey lib of
        Inl err \<Rightarrow> Inl (''failed to generate private key: '' @ err)
      | Inr privateKey \<Rightarrow>
          let template =
                \<lparr>SerialNumber = 1,
                 Subject = \<lparr>Organization = [''Kubernetes Edge Framework''], Country = [''US''],
                            Province = [''''], Locality = [''''], StreetAddress = [''''],
                            PostalCode = [''''], CommonName = commonName\<rparr>,
                 NotBefore = now,
                 NotAfter = time_Add now' CertValidityPeriod,
                 KeyUsage = [KeyUsageKeyEncipherment, KeyUsageDigitalSignature],
                 ExtKeyUsage = [ExtKeyUsageServerAuth, ExtKeyUsageClientAuth],
                 IPAddresses = [],
                 DNSNames = dnsNames\<rparr>;
              template = template\<lparr>IPAddresses := List.map_filter (ParseIP lib) ipAddresses\<rparr>
          in (case x509_CreateCertificate_error lib of
                Some err \<Rightarrow> Inl (''failed to create certificate: '' @ err)
              | None \<Rightarrow>
                  let certDER = x509_CreateCertificate template;
                      certPEM = pem_EncodeToMemory \<lparr>Type = ''CERTIFICATE'', Bytes = certDER\<rparr>
                  in (case x509_MarshalPKCS8PrivateKey_error lib of
                        Some err \<Rightarrow> Inl (''failed to marshal private key: '' @ err)
                      | None \<Rightarrow>
                          let privateKeyDER = DERPrivateKey privateKey;
                              privateKeyPEM = pem_EncodeToMemory
                                \<lparr>Type = ''PRIVATE KEY'', Bytes = privateKeyDER\<rparr>;
                              certID = generateID lib;
                              cert = \<lparr>Certificate.ID = certID,
                                      Certificate.NodeID = nodeID,
                                      Certificate = certPEM,
                                      PrivateKey = privateKeyPEM,
                                      IssuedAt = NotBefore template,
                                      ExpiresAt = NotAfter template\<rparr>
                          in Inr (cert, certificates(certID \<mapsto> cert)))))"

definition RevokeCertificate :: "CertificateMap \<Rightarrow> string \<Rightarrow> string option \<times> CertificateMap" where
  "RevokeCertificate certificates certificateID =
     (case certificates certificateID of
        None \<Rightarrow> (Some ''certificate not found'', certificates)
      | Some c \<Rightarrow> (None, certificates(certificateID := None)))"

definition ValidateClientCertificate :: "Time \<Rightarrow> bytes \<Rightarrow> string option" where
  "ValidateClientCertificate now certPEM =
     (case pem_Decode certPEM of
        None \<Rightarrow> Some ''failed to parse certificate PEM''
      | Some block \<Rightarrow>
          (case x509_ParseCertificate (Bytes block) of
             Inl err \<Rightarrow> Some (''failed to parse certificate: '' @ err)
           | Inr cert \<Rightarrow>
               if time_Before now (NotBefore cert) \<or> time_After now (NotAfter cert)
               then Some ''certificate is not valid at current time''
               else None))"

section \<open>The JavaScript orchestrator\<close>

text \<open>
  A JavaScript \<^verbatim>\<open>Date\<close> is its time value, the number of milliseconds since the epoch;
  \<^verbatim>\<open>new Date()\<close> is the reading of the clock that the operation receives. Comparing and
  subtracting two dates works on the time values.
\<close>

type_synonym Date = int

definition msPerDay :: int where
  "msPerDay = 86400000"

text \<open>
  \<^verbatim>\<open>setDate\<close> can leave a date invalid, with the time value NaN; \<open>None\<close> is that
  value. The time zone of the host is its function \<^verbatim>\<open>LocalTZA(t, isUTC)\<close>, the offset
  of local time in milliseconds at the UTC instant \<open>t\<close> (\<open>isUTC\<close> true) or at the local
  time \<open>t\<close> (\<open>isUTC\<close> false). The functions below are those of the language definition.
\<close>

type_synonym TimeValue = "int option"

type_synonym LocalTZA = "int \<Rightarrow> bool \<Rightarrow> int"

definition LocalTime :: "LocalTZA \<Rightarrow> int \<Rightarrow> int" where
  "LocalTime tza t = t + tza t True"

definition UTC :: "LocalTZA \<Rightarrow> int \<Rightarrow> int" where
  "UTC tza t = t - tza t False"

definition Day :: "int \<Rightarrow> int" where
  "Day t = t div msPerDay"

definition TimeWithinDay :: "int \<Rightarrow> int" where
  "TimeWithinDay t = t mod msPerDay"

definition MakeDate :: "int \<Rightarrow> int \<Rightarrow> int" where
  "MakeDate day time = day * msPerDay + time"

definition TimeClip :: "int \<Rightarrow> TimeValue" where
  "TimeClip time = (if \<bar>time\<bar> > 8640000000000000 then None else Some time)"

text \<open>
  \<^verbatim>\<open>d.setDate(d.getDate() + n)\<close> on a valid date: with \<open>t\<close> the local time of \<open>d\<close>,
  \<^verbatim>\<open>getDate\<close> is the day of the month of \<open>t\<close>, and \<^verbatim>\<open>setDate\<close> makes the day with the
  year and the month of \<open>t\<close> and that day of the month plus \<open>n\<close>, which is the day number
  \<open>Day t + n\<close>, keeps the time within the day, and turns the local time back into UTC.
\<close>

definition addDays :: "LocalTZA \<Rightarrow> Date \<Rightarrow> int \<Rightarrow> TimeValue" where
  "addDays tza d n =
     (let t = LocalTime tza d;
          newDate = MakeDate (Day t + n) (TimeWithinDay t)
      in TimeClip (UTC tza newDate))"

text \<open>\<^verbatim>\<open>a > b\<close> for a valid date \<open>a\<close>: false when \<open>b\<close> is invalid.\<close>

definition dateAfter :: "Date \<Rightarrow> TimeValue \<Rightarrow> bool" where
  "dateAfter a b = (case b of None \<Rightarrow> False | Some v \<Rightarrow> a > v)"

subsection \<open>Tokens\<close>

record TokenInfo =
  token :: string
  expiresAt :: TimeValue
  createdAt :: Date

type_synonym TokenMap = "string \<rightharpoonup> TokenInfo"

text \<open>
  \<open>randomHex\<close> is the result of \<^verbatim>\<open>crypto.randomBytes(32).toString('hex')\<close>, \<open>now\<close> the
  reading of the clock for \<^verbatim>\<open>expiresAt\<close> and \<open>now'\<close> the following reading for
  \<^verbatim>\<open>createdAt\<close>.
\<close>

definition generateToken ::
  "TokenMap \<Rightarrow> LocalTZA \<Rightarrow> Date \<Rightarrow> Date \<Rightarrow> string \<Rightarrow> string \<Rightarrow> string \<times> TokenMap" where
  "generateToken tokens tza now now' randomHex nodeId =
     (let token = randomHex;
          expiresAt = addDays tza now 30
      in (token, tokens(nodeId \<mapsto> \<lparr>token = token, expiresAt = expiresAt, createdAt = now'\<rparr>)))"

definition validateToken :: "TokenMap \<Rightarrow> Date \<Rightarrow> string \<Rightarrow> string \<Rightarrow> bool" where
  "validateToken tokens now nodeId tok =
     (case tokens nodeId of
        None \<Rightarrow> False
      | Some tokenInfo \<Rightarrow>
          if token tokenInfo \<noteq> tok then False
          else if dateAfter now (expiresAt tokenInfo) then False
          else True)"

definition revokeToken :: "TokenMap \<Rightarrow> string \<Rightarrow> bool \<times> TokenMap" where
  "revokeToken tokens nodeId =
     (case tokens nodeId of
        Some tokenInfo \<Rightarrow> (True, tokens(nodeId := None))
      | None \<Rightarrow> (False, tokens))"

subsection \<open>The node registry and its health check\<close>

record Node =
  id' :: string
  name :: string
  ipAddress :: string
  status :: string
  capabilities :: "string \<rightharpoonup> string"
  lastSeen :: Date
  workloads :: "string list"

type_synonym JsNodeMap = "string \<rightharpoonup> Node"

text \<open>\<open>order\<close> is the order in which \<^verbatim>\<open>this.nodes.entries()\<close> yields the keys.\<close>

fun checkNodesHealth :: "Date \<Rightarrow> string list \<Rightarrow> JsNodeMap \<Rightarrow> JsNodeMap" where
  "checkNodesHealth now [] nodes = nodes"
| "checkNodesHealth now (nodeId # order) nodes =
     (case nodes nodeId of
        None \<Rightarrow> checkNodesHealth now order nodes
      | Some node \<Rightarrow>
          let timeDiff = now - lastSeen node
          in if timeDiff > 5 * 60 * 1000 then
               (if status node \<noteq> ''OFFLINE''
                then checkNodesHealth now order (nodes(nodeId \<mapsto> node\<lparr>status := ''OFFLINE''\<rparr>))
                else checkNodesHealth now order nodes)
             else checkNodesHealth now order nodes)"

subsection \<open>Workload creation and its route\<close>

text \<open>
  A property of the request body is a string or is absent (\<open>None\<close>); the absent property
  and the empty string are the falsy ones. The \<^verbatim>\<open>resources\<close> and \<^verbatim>\<open>config\<close> objects
  are maps from strings to strings.
\<close>

record WorkloadSpec =
  name :: "string option"
  type' :: "string option"
  image' :: "string option"
  resources :: "(string \<rightharpoonup> string) option"
  config :: "(string \<rightharpoonup> string) option"
  targetNodes :: "string list option"

record JsWorkload =
  id' :: string
  name :: "string option"
  type' :: "string option"
  image' :: "string option"
  resources :: "string \<rightharpoonup> string"
  config :: "string \<rightharpoonup> string"
  status :: string
  createdAt :: Date
  targetNodes :: "string list"

type_synonym JsWorkloadMap = "string \<rightharpoonup> JsWorkload"

definition falsy :: "string option \<Rightarrow> bool" where
  "falsy v \<longleftrightarrow> v = None \<or> v = Some []"

text \<open>\<open>uuid\<close> is the result of \<^verbatim>\<open>uuidv4()\<close>.\<close>

definition createWorkload :: "JsWorkloadMap \<Rightarrow> Date \<Rightarrow> string \<Rightarrow> WorkloadSpec \<Rightarrow> JsWorkload \<times> JsWorkloadMap" where
  "createWorkload workloadMap now uuid workloadSpec =
     (let workloadId = uuid;
          workload =
            \<lparr>JsWorkload.id' = workloadId,
             JsWorkload.name = WorkloadSpec.name workloadSpec,
             JsWorkload.type' = WorkloadSpec.type' workloadSpec,
             JsWorkload.image' = WorkloadSpec.image' workloadSpec,
             JsWorkload.resources =
               (case WorkloadSpec.resources workloadSpec of None \<Rightarrow> Map.empty | Some r \<Rightarrow> r),
             JsWorkload.config =
               (case WorkloadSpec.config workloadSpec of None \<Rightarrow> Map.empty | Some c \<Rightarrow> c),
             JsWorkload.status = ''CREATED'',
             JsWorkload.createdAt = now,
             JsWorkload.targetNodes =
               (case WorkloadSpec.targetNodes workloadSpec of None \<Rightarrow> [] | Some ns \<Rightarrow> ns)\<rparr>
      in (workload, workloadMap(workloadId \<mapsto> workload)))"

text \<open>The handler of \<^verbatim>\<open>POST /api/workloads\<close>: the status code, the body and the registry.\<close>

definition postWorkloads ::
  "JsWorkloadMap \<Rightarrow> Date \<Rightarrow> string \<Rightarrow> WorkloadSpec \<Rightarrow> (nat \<times> JsWorkload option) \<times> JsWorkloadMap" where
  "postWorkloads workloadMap now uuid workloadSpec =
     (if falsy (WorkloadSpec.name workloadSpec) \<or> falsy (WorkloadSpec.type' workloadSpec)
           \<or> falsy (WorkloadSpec.image' workloadSpec)
      then ((400, None), workloadMap)
      else let (workload, workloadMap') = createWorkload workloadMap now uuid workloadSpec
           in ((201, Some workload), workloadMap'))"

section \<open>The statements of the specification\<close>

text \<open>
  The definitions of this section follow the words of the specification; the theorems
  compare them with the functions above.
\<close>

text \<open>
  Constraint matching: "for key region/zone compare against the node's region/zone; for
  any other key, compare against labels[key]; the value must be in the provided list (an
  absent label on the node fails the constraint)".
\<close>

definition constraintSatisfied :: "EdgeNode \<Rightarrow> PlacementConstraint \<Rightarrow> bool" where
  "constraintSatisfied node c =
     (if Key c = ''region'' then Region node \<in> set (Values c)
      else if Key c = ''zone'' then Zone node \<in> set (Values c)
      else (case EdgeNode.Labels node (Key c) of
              None \<Rightarrow> False
            | Some v \<Rightarrow> v \<in> set (Values c)))"

text \<open>
  The health sweep on one node: "for every node whose (now - lastHeartbeat) exceeds a
  staleness threshold and whose status is not already OFFLINE, sets status=OFFLINE and
  updates updatedAt". The threshold is two minutes in the Go orchestrator and five
  minutes in the JavaScript one, whose nodes carry no \<^verbatim>\<open>updatedAt\<close>.
\<close>

definition markOfflineIfStale :: "Time \<Rightarrow> EdgeNode \<Rightarrow> EdgeNode" where
  "markOfflineIfStale now node =
     (if now - LastHeartbeat node > 2 * Minute \<and> EdgeNode.Status node \<noteq> NodeStatusOffline
      then node\<lparr>EdgeNode.Status := NodeStatusOffline, EdgeNode.UpdatedAt := now\<rparr>
      else node)"

definition markOfflineIfStaleJs :: "Date \<Rightarrow> Node \<Rightarrow> Node" where
  "markOfflineIfStaleJs now node =
     (if now - lastSeen node > 300000 \<and> Node.status node \<noteq> ''OFFLINE''
      then node\<lparr>Node.status := ''OFFLINE''\<rparr>
      else node)"

text \<open>
  Creation: "applies defaults (namespace, replica count=1, empty maps); status=PENDING;
  derives the selector".
\<close>

definition createdWorkload :: "WorkloadDeploymentRequest \<Rightarrow> string \<Rightarrow> Time \<Rightarrow> Workload" where
  "createdWorkload req workloadID now =
     \<lparr>Workload.ID = workloadID,
      Workload.Name = WorkloadDeploymentRequest.Name req,
      Workload.Namespace =
        (if WorkloadDeploymentRequest.Namespace req = [] then ''default''
         else WorkloadDeploymentRequest.Namespace req),
      Workload.Type = WorkloadDeploymentRequest.Type req,
      Workload.Image = WorkloadDeploymentRequest.Image req,
      Workload.Replicas =
        (if WorkloadDeploymentRequest.Replicas req = 0 then 1
         else WorkloadDeploymentRequest.Replicas req),
      Workload.Resources = WorkloadDeploymentRequest.Resources req,
      Workload.Environment =
        (case WorkloadDeploymentRequest.Environment req of
           None \<Rightarrow> Some Map.empty | Some env \<Rightarrow> Some env),
      Workload.Labels =
        (case WorkloadDeploymentRequest.Labels req of
           None \<Rightarrow> Some Map.empty | Some labels \<Rightarrow> Some labels),
      Selector = [''app'' \<mapsto> WorkloadDeploymentRequest.Name req, ''workload-id'' \<mapsto> workloadID],
      Workload.Placement =
        (WorkloadDeploymentRequest.Placement req)
          \<lparr>Strategy :=
             (if Strategy (WorkloadDeploymentRequest.Placement req) = []
              then PlacementStrategyEdgeFirst
              else Strategy (WorkloadDeploymentRequest.Placement req))\<rparr>,
      Workload.Status = WorkloadStatusPending,
      Deployments = [],
      Workload.CreatedAt = now,
      Workload.UpdatedAt = now\<rparr>"

section \<open>Example states\<close>

definition exampleUsage :: ResourceUsage where
  "exampleUsage = \<lparr>Capacity = ''4 cores'', Usage = ''25%'', Percentage = 25\<rparr>"

definition exampleResources :: NodeResources where
  "exampleResources =
     \<lparr>NodeResources.CPU = exampleUsage, NodeResources.Memory = exampleUsage, Storage = exampleUsage,
      NetworkBandwidth = ''1 Gbps'', GPUs = 0\<rparr>"

definition exampleNode :: "string \<Rightarrow> NodeStatus \<Rightarrow> string \<Rightarrow> Time \<Rightarrow> EdgeNode" where
  "exampleNode nodeID st region heartbeat =
     \<lparr>EdgeNode.ID = nodeID, EdgeNode.Name = ''edge-'' @ nodeID, Address = ''192.168.1.100'',
      EdgeNode.Status = st, LastHeartbeat = heartbeat, EdgeNode.Resources = exampleResources,
      EdgeNode.Labels = [''node-type'' \<mapsto> ''edge''], Capabilities = [''compute''],
      Region = region, Zone = ''default'', KubernetesVersion = ''v1.28.4'',
      ContainerRuntime = ''containerd'', EdgeNode.CreatedAt = 0, EdgeNode.UpdatedAt = heartbeat\<rparr>"

text \<open>Two nodes that are online, in different regions, and a degraded one.\<close>

definition exampleNodes :: NodeMap where
  "exampleNodes =
     [''n1'' \<mapsto> exampleNode ''n1'' NodeStatusOnline ''eu'' 0,
      ''n2'' \<mapsto> exampleNode ''n2'' NodeStatusOnline ''us'' 0,
      ''n3'' \<mapsto> exampleNode ''n3'' NodeStatusDegraded ''eu'' 0]"

definition exampleOrder :: "string list" where
  "exampleOrder = [''n1'', ''n2'', ''n3'']"

definition exampleNodeOrder :: "string \<Rightarrow> string list" where
  "exampleNodeOrder k = exampleOrder"

definition regionEu :: PlacementConstraint where
  "regionEu = \<lparr>Key = ''region'', Operator = ''In'', Values = [''eu'']\<rparr>"

definition regionMars :: PlacementConstraint where
  "regionMars = \<lparr>Key = ''region'', Operator = ''In'', Values = [''mars'']\<rparr>"

definition exampleRequest :: "32 word \<Rightarrow> PlacementConstraint list \<Rightarrow> WorkloadDeploymentRequest" where
  "exampleRequest n cs =
     \<lparr>WorkloadDeploymentRequest.Name = ''test-nginx'',
      WorkloadDeploymentRequest.Namespace = [],
      WorkloadDeploymentRequest.Type = ''deployment'',
      WorkloadDeploymentRequest.Image = ''nginx:alpine'',
      WorkloadDeploymentRequest.Replicas = n,
      WorkloadDeploymentRequest.Resources =
        \<lparr>Requests = \<lparr>ResourceList.CPU = ''100m'', ResourceList.Memory = ''128Mi''\<rparr>,
         Limits = \<lparr>ResourceList.CPU = ''200m'', ResourceList.Memory = ''256Mi''\<rparr>\<rparr>,
      WorkloadDeploymentRequest.Environment = None,
      WorkloadDeploymentRequest.Labels = None,
      WorkloadDeploymentRequest.Placement =
        \<lparr>Strategy = PlacementStrategyEdgeFirst, Constraints = cs, Preferences = []\<rparr>\<rparr>"

text \<open>
  The workload that a creation request for \<open>n\<close> replicas under the constraints \<open>cs\<close>
  leaves in the registry, and the registry after a following request to scale it.
\<close>

definition exampleWorkload :: "32 word \<Rightarrow> PlacementConstraint list \<Rightarrow> Workload" where
  "exampleWorkload n cs = createdWorkload (exampleRequest n cs) ''w1'' 0"

definition exampleWorkloads :: "32 word \<Rightarrow> PlacementConstraint list \<Rightarrow> WorkloadMap" where
  "exampleWorkloads n cs = snd (DeployWorkload (exampleRequest n cs) ''w1'' 0 Map.empty)"

definition exampleScaled :: "32 word \<Rightarrow> WorkloadMap" where
  "exampleScaled n =
     snd (ScaleWorkload ''w1'' \<lparr>ScaleWorkloadRequest.Replicas = n\<rparr> 1 (exampleWorkloads 2 []))"

text \<open>A registered and a degraded node of the JavaScript registry.\<close>

definition exampleJsNode :: "string \<Rightarrow> string \<Rightarrow> Date \<Rightarrow> Node" where
  "exampleJsNode nodeId st seen =
     \<lparr>Node.id' = nodeId, Node.name = ''edge-'' @ nodeId, ipAddress = ''10.0.0.1'', Node.status = st,
      capabilities = Map.empty, lastSeen = seen, workloads = []\<rparr>"

definition exampleJsNodes :: JsNodeMap where
  "exampleJsNodes =
     [''j1'' \<mapsto> exampleJsNode ''j1'' ''REGISTERED'' 0,
      ''j2'' \<mapsto> exampleJsNode ''j2'' ''DEGRADED'' 0]"

definition exampleJsOrder :: "string list" where
  "exampleJsOrder = [''j1'', ''j2'']"

text \<open>The workload registry after a tick has placed the example workload on two nodes.\<close>

definition exampleRunning :: WorkloadMap where
  "exampleRunning =
     (case scheduleWorkloads exampleNodes exampleNodeOrder 1 [''w1''] (exampleWorkloads 2 []) of
        Return (errors, wm) \<Rightarrow> wm
      | Panic p \<Rightarrow> Map.empty)"

text \<open>A library whose calls all succeed, and the token store after one issuance.\<close>

definition exampleLibrary :: Library where
  "exampleLibrary =
     \<lparr>rsa_GenerateKey = Inr 42, x509_CreateCertificate_error = None,
      x509_MarshalPKCS8PrivateKey_error = None, ParseIP = Some, generateID = ''c1''\<rparr>"

text \<open>
  A time zone without offset, and one that is five hours behind UTC until the instant of
  ten days and four hours behind from then on.
\<close>

definition zoneUTC :: LocalTZA where
  "zoneUTC t isUTC = 0"

definition zoneWithChange :: LocalTZA where
  "zoneWithChange t isUTC =
     (if isUTC then (if t < 10 * msPerDay then - 18000000 else - 14400000)
      else (if t < 10 * msPerDay - 14400000 then - 18000000 else - 14400000))"

definition exampleTokens :: "LocalTZA \<Rightarrow> TokenMap" where
  "exampleTokens tza = snd (generateToken Map.empty tza 1000 1003 ''secret-a'' ''node-1'')"

text \<open>A certificate issued at one and a half seconds, with 317 nanoseconds between the readings.\<close>

definition exampleIssue :: "string + (Certificate \<times> CertificateMap)" where
  "exampleIssue =
     GenerateCertificate exampleLibrary 1500000000 1500000317 Map.empty ''node-1'' ''edge-1''
       [''edge-1.local''] [''10.0.0.1'']"

definition exampleCertificate :: Certificate where
  "exampleCertificate = fst (projr exampleIssue)"

text \<open>A creation request to the JavaScript orchestrator with the three required properties.\<close>

definition exampleSpec :: WorkloadSpec where
  "exampleSpec =
     \<lparr>WorkloadSpec.name = Some ''test-nginx'', WorkloadSpec.type' = Some ''deployment'',
      WorkloadSpec.image' = Some ''nginx:alpine'', WorkloadSpec.resources = None,
      WorkloadSpec.config = None, WorkloadSpec.targetNodes = None\<rparr>"

definition noJsWorkloads :: JsWorkloadMap where
  "noJsWorkloads = Map.empty"

section \<open>Constraint matching and candidates\<close>

lemma contains_iff: "contains xs item \<longleftrightarrow> item \<in> set xs"
  by (induction xs) auto

lemma nodeMatchesConstraints_iff:
  "nodeMatchesConstraints node cs \<longleftrightarrow> (\<forall>c \<in> set cs. constraintSatisfied node c)"
  by (induction cs) (auto simp: constraintSatisfied_def contains_iff split: option.splits)

lemma set_candidateNodes:
  "set (candidateNodes nodeMap order cs) =
     {node. \<exists>k \<in> set order. nodeMap k = Some node \<and> EdgeNode.Status node = NodeStatusOnline
              \<and> nodeMatchesConstraints node cs}"
  by (induction order) (auto split: option.splits)

lemma candidateNodes_ids:
  assumes "\<forall>k node. nodeMap k = Some node \<longrightarrow> EdgeNode.ID node = k"
  shows "set (map EdgeNode.ID (candidateNodes nodeMap order cs)) \<subseteq> set order"
  using assms by (induction order) (auto split: option.splits)

lemma candidateNodes_distinct:
  assumes "\<forall>k node. nodeMap k = Some node \<longrightarrow> EdgeNode.ID node = k" and "distinct order"
  shows "distinct (map EdgeNode.ID (candidateNodes nodeMap order cs))"
  using assms(2)
proof (induction order)
  case Nil
  show ?case by simp
next
  case (Cons k ks)
  have sub: "set (map EdgeNode.ID (candidateNodes nodeMap ks cs)) \<subseteq> set ks"
    by (rule candidateNodes_ids [OF assms(1)])
  from Cons have IH: "distinct (map EdgeNode.ID (candidateNodes nodeMap ks cs))" and k: "k \<notin> set ks"
    by simp_all
  show ?case
  proof (cases "nodeMap k")
    case None
    with IH show ?thesis by simp
  next
    case (Some node)
    with assms(1) have "EdgeNode.ID node = k" by simp
    with sub k have "EdgeNode.ID node \<notin> set (map EdgeNode.ID (candidateNodes nodeMap ks cs))"
      by blast
    with Some IH show ?thesis by simp
  qed
qed

section \<open>Selection and scheduling\<close>

lemma deployToNodes_eq:
  "deployToNodes now ns w = w\<lparr>Deployments := Deployments w @ map (newDeployment now) ns\<rparr>"
  by (induction ns arbitrary: w) auto

lemma selectEdgeFirstNodes_pos:
  assumes "1 \<le> sint (Workload.Replicas w)"
  shows "selectEdgeFirstNodes C w = Return (take (min (nat (sint (Workload.Replicas w))) (length C)) C)"
  using assms by (auto simp: selectEdgeFirstNodes_def Let_def min_def)

lemma selectEdgeFirstNodes_neg:
  assumes "sint (Workload.Replicas w) < 0" and "C \<noteq> []"
  shows "selectEdgeFirstNodes C w = Panic (SliceBoundsOutOfRange (sint (Workload.Replicas w)))"
  using assms by (auto simp: selectEdgeFirstNodes_def Let_def)

lemma selectNodesForWorkload_any:
  "selectNodesForWorkload nodeMap order w =
     selectEdgeFirstNodes (candidateNodes nodeMap order (Constraints (Workload.Placement w))) w"
  by (simp add: selectNodesForWorkload_def Let_def selectLoadBalancedNodes_def selectResourceAwareNodes_def)

lemma scheduleWorkload_none:
  assumes "candidateNodes nodeMap order (Constraints (Workload.Placement w)) = []"
  shows "scheduleWorkload nodeMap order now w =
           Return (Some (''no suitable nodes found for workload '' @ Workload.Name w), w)"
  using assms
  by (simp add: scheduleWorkload_def selectNodesForWorkload_any selectEdgeFirstNodes_def)

lemma scheduleWorkloads_keeps:
  assumes "wm k = Some w"
      and "candidateNodes nodeMap (nodeOrder k) (Constraints (Workload.Placement w)) = []"
      and "scheduleWorkloads nodeMap nodeOrder now ks wm = Return (errs, wm')"
  shows "wm' k = Some w"
  using assms
proof (induction ks arbitrary: wm errs wm')
  case Nil
  then show ?case by simp
next
  case (Cons a ks)
  show ?case
  proof (cases "wm a")
    case None
    with Cons show ?thesis by simp
  next
    case (Some wa)
    show ?thesis
    proof (cases "Workload.Status wa = WorkloadStatusPending")
      case False
      with Cons Some show ?thesis by simp
    next
      case True
      from Cons.prems(3) Some True obtain err wa' errs0 where
        sw: "scheduleWorkload nodeMap (nodeOrder a) now wa = Return (err, wa')" and
        rest: "scheduleWorkloads nodeMap nodeOrder now ks (wm(a \<mapsto> wa')) = Return (errs0, wm')"
        by (auto split: go.splits option.splits)
      have "(wm(a \<mapsto> wa')) k = Some w"
      proof (cases "a = k")
        case True
        with Some Cons.prems(1) have "wa = w" by simp
        with sw Cons.prems(2) True have "wa' = w"
          by (simp add: scheduleWorkload_none)
        with True show ?thesis by simp
      next
        case False
        with Cons.prems(1) show ?thesis by simp
      qed
      from Cons.IH [OF this Cons.prems(2) rest] show ?thesis .
    qed
  qed
qed

section \<open>The sweep\<close>

lemma time_Since_gt: "time_Since now t > 2 * Minute \<longleftrightarrow> now - t > 2 * Minute"
  by (simp add: time_Since_def time_Sub_def maxDuration_def minDuration_def Minute_def Second_def)

lemma markOfflineIfStale_twice:
  "markOfflineIfStale now' (markOfflineIfStale now node) =
     (if now - LastHeartbeat node > 2 * Minute \<or> EdgeNode.Status node = NodeStatusOffline
      then markOfflineIfStale now node
      else markOfflineIfStale now' node)"
  by (simp add: markOfflineIfStale_def)

lemma checkNodeHealth_lookup:
  "checkNodeHealth now ks nodes k =
     (if k \<in> set ks then map_option (markOfflineIfStale now) (nodes k) else nodes k)"
proof (induction ks arbitrary: nodes)
  case Nil
  show ?case by simp
next
  case (Cons a ks)
  show ?case
  proof (cases "nodes a")
    case None
    then show ?thesis using Cons.IH [of nodes] by auto
  next
    case (Some node)
    let ?n' = "markOfflineIfStale now node"
    have step: "checkNodeHealth now (a # ks) nodes = checkNodeHealth now ks (nodes(a \<mapsto> ?n'))"
      using Some by (simp add: markOfflineIfStale_def time_Since_gt map_upd_triv)
    have idem: "markOfflineIfStale now ?n' = ?n'"
      by (simp add: markOfflineIfStale_twice)
    have IH: "checkNodeHealth now ks (nodes(a \<mapsto> ?n')) k =
        (if k \<in> set ks then map_option (markOfflineIfStale now) ((nodes(a \<mapsto> ?n')) k)
         else (nodes(a \<mapsto> ?n')) k)"
      by (rule Cons.IH)
    show ?thesis
    proof (cases "k = a")
      case True
      have "checkNodeHealth now ks (nodes(a \<mapsto> ?n')) a = Some ?n'"
        using IH idem True by (cases "a \<in> set ks") simp_all
      with True Some step show ?thesis by simp
    next
      case False
      with IH have "checkNodeHealth now ks (nodes(a \<mapsto> ?n')) k =
        (if k \<in> set ks then map_option (markOfflineIfStale now) (nodes k) else nodes k)"
        by simp
      with False step show ?thesis by simp
    qed
  qed
qed

lemma markOfflineIfStaleJs_twice:
  "markOfflineIfStaleJs now' (markOfflineIfStaleJs now node) =
     (if now - lastSeen node > 300000 \<or> Node.status node = ''OFFLINE''
      then markOfflineIfStaleJs now node
      else markOfflineIfStaleJs now' node)"
  by (simp add: markOfflineIfStaleJs_def)

lemma checkNodesHealth_lookup:
  "checkNodesHealth now ks nodes k =
     (if k \<in> set ks then map_option (markOfflineIfStaleJs now) (nodes k) else nodes k)"
proof (induction ks arbitrary: nodes)
  case Nil
  show ?case by simp
next
  case (Cons a ks)
  show ?case
  proof (cases "nodes a")
    case None
    then show ?thesis using Cons.IH [of nodes] by auto
  next
    case (Some node)
    let ?n' = "markOfflineIfStaleJs now node"
    have step: "checkNodesHealth now (a # ks) nodes = checkNodesHealth now ks (nodes(a \<mapsto> ?n'))"
      using Some by (simp add: markOfflineIfStaleJs_def map_upd_triv)
    have idem: "markOfflineIfStaleJs now ?n' = ?n'"
      by (simp add: markOfflineIfStaleJs_twice)
    have IH: "checkNodesHealth now ks (nodes(a \<mapsto> ?n')) k =
        (if k \<in> set ks then map_option (markOfflineIfStaleJs now) ((nodes(a \<mapsto> ?n')) k)
         else (nodes(a \<mapsto> ?n')) k)"
      by (rule Cons.IH)
    show ?thesis
    proof (cases "k = a")
      case True
      have "checkNodesHealth now ks (nodes(a \<mapsto> ?n')) a = Some ?n'"
        using IH idem True by (cases "a \<in> set ks") simp_all
      with True Some step show ?thesis by simp
    next
      case False
      with IH have "checkNodesHealth now ks (nodes(a \<mapsto> ?n')) k =
        (if k \<in> set ks then map_option (markOfflineIfStaleJs now) (nodes k) else nodes k)"
        by simp
      with False step show ?thesis by simp
    qed
  qed
qed

section \<open>Creation and scaling\<close>

lemma DeployWorkload_bound:
  assumes "bindWorkloadDeploymentRequest req = None"
  shows "DeployWorkload req workloadID now wm =
           (StatusCreated workloadID (createdWorkload req workloadID now),
            wm(workloadID \<mapsto> createdWorkload req workloadID now))"
  using assms
  by (cases "WorkloadDeploymentRequest.Namespace req = []";
      cases "WorkloadDeploymentRequest.Replicas req = 0";
      cases "WorkloadDeploymentRequest.Labels req";
      cases "WorkloadDeploymentRequest.Environment req";
      cases "Strategy (WorkloadDeploymentRequest.Placement req) = []";
      simp add: DeployWorkload_def createdWorkload_def Let_def cong: let_weak_cong)

section \<open>The example states, evaluated\<close>

lemma exampleWorkloads_eq: "exampleWorkloads n cs = [''w1'' \<mapsto> exampleWorkload n cs]"
  by (simp add: exampleWorkloads_def exampleWorkload_def DeployWorkload_bound
        bindWorkloadDeploymentRequest_def exampleRequest_def)

lemma exampleWorkload_fields:
  "Workload.Replicas (exampleWorkload n cs) = (if n = 0 then 1 else n)"
  "Workload.Placement (exampleWorkload n cs) =
     \<lparr>Strategy = PlacementStrategyEdgeFirst, Constraints = cs, Preferences = []\<rparr>"
  "Workload.Status (exampleWorkload n cs) = WorkloadStatusPending"
  "Workload.Name (exampleWorkload n cs) = ''test-nginx''"
  "Deployments (exampleWorkload n cs) = []"
  by (simp_all add: exampleWorkload_def createdWorkload_def exampleRequest_def)

lemma exampleScaled_eq:
  "n \<noteq> 0 \<Longrightarrow> exampleScaled n =
     [''w1'' \<mapsto> (exampleWorkload 2 [])\<lparr>Workload.Replicas := n,
        Workload.Status := WorkloadStatusPending, Workload.UpdatedAt := 1\<rparr>]"
  by (simp add: exampleScaled_def ScaleWorkload_def bindScaleWorkloadRequest_def
        exampleWorkloads_eq Let_def)

lemma example_candidates_all:
  "candidateNodes exampleNodes exampleOrder [] =
     [exampleNode ''n1'' NodeStatusOnline ''eu'' 0, exampleNode ''n2'' NodeStatusOnline ''us'' 0]"
  by (simp add: exampleNodes_def exampleNode_def exampleOrder_def)

lemma example_candidates_eu:
  "candidateNodes exampleNodes exampleOrder [regionEu] =
     [exampleNode ''n1'' NodeStatusOnline ''eu'' 0]"
  by (simp add: exampleNodes_def exampleNode_def regionEu_def exampleOrder_def)

lemma example_candidates_mars:
  "candidateNodes exampleNodes exampleOrder [regionMars] = []"
  by (simp add: exampleNodes_def exampleNode_def regionMars_def exampleOrder_def)

lemma exampleNodes_ids: "\<forall>k node. exampleNodes k = Some node \<longrightarrow> EdgeNode.ID node = k"
  by (auto simp: exampleNodes_def exampleNode_def split: if_splits)

lemma exampleRunning_eq:
  "exampleRunning =
     [''w1'' \<mapsto> (exampleWorkload 2 [])
        \<lparr>Deployments := [newDeployment 1 (exampleNode ''n1'' NodeStatusOnline ''eu'' 0),
                         newDeployment 1 (exampleNode ''n2'' NodeStatusOnline ''us'' 0)],
         Workload.Status := WorkloadStatusRunning, Workload.UpdatedAt := 1\<rparr>]"
  by (simp add: exampleRunning_def exampleWorkloads_eq exampleWorkload_fields exampleNodeOrder_def
        scheduleWorkload_def selectNodesForWorkload_any example_candidates_all
        selectEdgeFirstNodes_def deployToNodes_eq)

section \<open>Certificate issuance and validation\<close>

lemma GenerateCertificate_returns:
  assumes "rsa_GenerateKey lib = Inr privateKey"
      and "x509_CreateCertificate_error lib = None"
      and "x509_MarshalPKCS8PrivateKey_error lib = None"
  shows "\<exists>x. GenerateCertificate lib now now' certificates nodeID commonName dnsNames ipAddresses =
           Inr (\<lparr>Certificate.ID = generateID lib, Certificate.NodeID = nodeID,
                  Certificate = PEM \<lparr>Type = ''CERTIFICATE'', Bytes = DERCertificate x\<rparr>,
                  PrivateKey = PEM \<lparr>Type = ''PRIVATE KEY'', Bytes = DERPrivateKey privateKey\<rparr>,
                  IssuedAt = now, ExpiresAt = now' + 365 * 24 * Hour\<rparr>,
                certificates(generateID lib \<mapsto>
                  \<lparr>Certificate.ID = generateID lib, Certificate.NodeID = nodeID,
                   Certificate = PEM \<lparr>Type = ''CERTIFICATE'', Bytes = DERCertificate x\<rparr>,
                   PrivateKey = PEM \<lparr>Type = ''PRIVATE KEY'', Bytes = DERPrivateKey privateKey\<rparr>,
                   IssuedAt = now, ExpiresAt = now' + 365 * 24 * Hour\<rparr>))
           \<and> NotBefore x = wholeSeconds now \<and> NotAfter x = wholeSeconds (now' + 365 * 24 * Hour)
           \<and> CommonName (Subject x) = commonName \<and> DNSNames x = dnsNames
           \<and> IPAddresses x = List.map_filter (ParseIP lib) ipAddresses"
  using assms
  by (simp add: GenerateCertificate_def Let_def pem_EncodeToMemory_def time_Add_def
        CertValidityPeriod_def x509_CreateCertificate_def cong: let_weak_cong)

lemma GenerateCertificate_fails:
  assumes "(\<exists>err. rsa_GenerateKey lib = Inl err) \<or> x509_CreateCertificate_error lib \<noteq> None
           \<or> x509_MarshalPKCS8PrivateKey_error lib \<noteq> None"
  shows "\<exists>err. GenerateCertificate lib now now' certificates nodeID commonName dnsNames ipAddresses =
           Inl err"
  using assms
  by (cases "rsa_GenerateKey lib"; cases "x509_CreateCertificate_error lib";
      cases "x509_MarshalPKCS8PrivateKey_error lib")
     (simp_all add: GenerateCertificate_def Let_def cong: let_weak_cong)

lemma wholeSeconds_le: "wholeSeconds t \<le> t"
  by (simp add: wholeSeconds_def Second_def)

lemma wholeSeconds_dvd: "Second dvd t \<Longrightarrow> wholeSeconds t = t"
  by (simp add: wholeSeconds_def)

lemma ValidateClientCertificate_window:
  "ValidateClientCertificate t (PEM \<lparr>Type = ty, Bytes = DERCertificate x\<rparr>) = None
     \<longleftrightarrow> NotBefore x \<le> t \<and> t \<le> NotAfter x"
  by (auto simp: ValidateClientCertificate_def time_Before_def time_After_def)

lemma exampleIssue_eq:
  "\<exists>x. exampleIssue =
         Inr (\<lparr>Certificate.ID = ''c1'', Certificate.NodeID = ''node-1'',
                Certificate = PEM \<lparr>Type = ''CERTIFICATE'', Bytes = DERCertificate x\<rparr>,
                PrivateKey = PEM \<lparr>Type = ''PRIVATE KEY'', Bytes = DERPrivateKey 42\<rparr>,
                IssuedAt = 1500000000, ExpiresAt = 1500000317 + 365 * 24 * Hour\<rparr>,
              [''c1'' \<mapsto>
                \<lparr>Certificate.ID = ''c1'', Certificate.NodeID = ''node-1'',
                 Certificate = PEM \<lparr>Type = ''CERTIFICATE'', Bytes = DERCertificate x\<rparr>,
                 PrivateKey = PEM \<lparr>Type = ''PRIVATE KEY'', Bytes = DERPrivateKey 42\<rparr>,
                 IssuedAt = 1500000000, ExpiresAt = 1500000317 + 365 * 24 * Hour\<rparr>])
       \<and> NotBefore x = 1000000000 \<and> NotAfter x = 1000000000 + 365 * 24 * Hour"
proof -
  have k: "rsa_GenerateKey exampleLibrary = Inr 42"
    and c: "x509_CreateCertificate_error exampleLibrary = None"
    and m: "x509_MarshalPKCS8PrivateKey_error exampleLibrary = None"
    and i: "generateID exampleLibrary = ''c1''"
    by (simp_all add: exampleLibrary_def)
  have w1: "wholeSeconds 1500000000 = 1000000000"
    by (simp add: wholeSeconds_def Second_def)
  have w2: "wholeSeconds (1500000317 + 365 * 24 * Hour) = 1000000000 + 365 * 24 * Hour"
    by (simp add: wholeSeconds_def Hour_def Minute_def Second_def)
  from GenerateCertificate_returns [OF k c m, of 1500000000 1500000317 Map.empty "''node-1''"
         "''edge-1''" "[''edge-1.local'']" "[''10.0.0.1'']"]
  show ?thesis unfolding exampleIssue_def i w1 w2 by blast
qed

section \<open>Token issuance\<close>

lemma addDays_eq: "addDays tza d n = TimeClip (UTC tza (LocalTime tza d + n * msPerDay))"
proof -
  have "MakeDate (Day t + n) (TimeWithinDay t) = t + n * msPerDay" for t
    by (simp add: MakeDate_def Day_def TimeWithinDay_def algebra_simps)
  then show ?thesis by (simp add: addDays_def Let_def)
qed

lemma generateToken_eq:
  "generateToken tokens tza issued issued' secret nodeId =
     (secret, tokens(nodeId \<mapsto>
        \<lparr>token = secret, expiresAt = TimeClip (UTC tza (LocalTime tza issued + 30 * msPerDay)),
         createdAt = issued'\<rparr>))"
  by (simp add: generateToken_def Let_def addDays_eq)

lemma exampleTokens_change:
  "exampleTokens zoneWithChange =
     [''node-1'' \<mapsto> \<lparr>token = ''secret-a'', expiresAt = Some (1000 + 30 * msPerDay - 3600000),
                      createdAt = 1003\<rparr>]"
  by (simp add: exampleTokens_def generateToken_eq LocalTime_def UTC_def zoneWithChange_def
        TimeClip_def msPerDay_def)

lemma exampleTokens_UTC:
  "exampleTokens zoneUTC =
     [''node-1'' \<mapsto> \<lparr>token = ''secret-a'', expiresAt = Some (1000 + 30 * msPerDay),
                      createdAt = 1003\<rparr>]"
  by (simp add: exampleTokens_def generateToken_eq LocalTime_def UTC_def zoneUTC_def
        TimeClip_def msPerDay_def)

section \<open>The claims\<close>

text \<open>
  Claim C1. For a workload with placement strategy edge-first and a desired replica count
  \<open>r \<ge> 1\<close>, when the candidate list \<open>C\<close> (the online nodes that match every constraint, in
  the order the registry is visited) is not empty, \<^verbatim>\<open>scheduleWorkload\<close> returns without
  error, appends exactly \<open>min r |C|\<close> deployment records, one for each of the first
  \<open>min r |C|\<close> candidates in visiting order, each with status running and one replica, and
  sets the workload to running. The records name distinct nodes when the registry is
  visited key by key and keeps every node under its own id, as registration stores it.
\<close>

theorem scheduleWorkload_edge_first:
  assumes "Strategy (Workload.Placement w) = PlacementStrategyEdgeFirst"
      and "1 \<le> sint (Workload.Replicas w)"
      and "candidateNodes nodeMap order (Constraints (Workload.Placement w)) \<noteq> []"
  shows "let C = candidateNodes nodeMap order (Constraints (Workload.Placement w));
             chosen = take (min (nat (sint (Workload.Replicas w))) (length C)) C
         in scheduleWorkload nodeMap order now w =
              Return (None,
                w\<lparr>Deployments := Deployments w @ map (newDeployment now) chosen,
                  Workload.Status := WorkloadStatusRunning, Workload.UpdatedAt := now\<rparr>)
            \<and> length (map (newDeployment now) chosen) = min (nat (sint (Workload.Replicas w))) (length C)
            \<and> map WorkloadDeployment.NodeID (map (newDeployment now) chosen) = map EdgeNode.ID chosen
            \<and> (\<forall>d \<in> set (map (newDeployment now) chosen).
                  WorkloadDeployment.Status d = WorkloadStatusRunning \<and> WorkloadDeployment.Replicas d = 1)
            \<and> (distinct order \<and> (\<forall>k node. nodeMap k = Some node \<longrightarrow> EdgeNode.ID node = k)
                  \<longrightarrow> distinct (map WorkloadDeployment.NodeID (map (newDeployment now) chosen)))"
proof -
  define C where "C = candidateNodes nodeMap order (Constraints (Workload.Placement w))"
  define chosen where "chosen = take (min (nat (sint (Workload.Replicas w))) (length C)) C"
  have sel: "selectNodesForWorkload nodeMap order w = Return chosen"
    using assms(2) by (simp add: selectNodesForWorkload_any selectEdgeFirstNodes_pos C_def chosen_def)
  have "C \<noteq> []" using assms(3) by (simp add: C_def)
  moreover have "0 < nat (sint (Workload.Replicas w))" using assms(2) by simp
  ultimately have ne: "chosen \<noteq> []" by (cases C) (simp_all add: chosen_def min_def)
  have run: "scheduleWorkload nodeMap order now w =
      Return (None,
        w\<lparr>Deployments := Deployments w @ map (newDeployment now) chosen,
          Workload.Status := WorkloadStatusRunning, Workload.UpdatedAt := now\<rparr>)"
    using ne by (simp add: scheduleWorkload_def sel deployToNodes_eq)
  have len: "length (map (newDeployment now) chosen) = min (nat (sint (Workload.Replicas w))) (length C)"
    by (simp add: chosen_def)
  have ids: "map WorkloadDeployment.NodeID (map (newDeployment now) chosen) = map EdgeNode.ID chosen"
    by (simp add: newDeployment_def)
  have each: "\<forall>d \<in> set (map (newDeployment now) chosen).
      WorkloadDeployment.Status d = WorkloadStatusRunning \<and> WorkloadDeployment.Replicas d = 1"
    by (simp add: newDeployment_def)
  have dist: "distinct (map WorkloadDeployment.NodeID (map (newDeployment now) chosen))"
    if "distinct order" and "\<forall>k node. nodeMap k = Some node \<longrightarrow> EdgeNode.ID node = k"
  proof -
    have "distinct (map EdgeNode.ID C)"
      unfolding C_def by (rule candidateNodes_distinct [OF that(2) that(1)])
    then have "distinct (take (min (nat (sint (Workload.Replicas w))) (length C)) (map EdgeNode.ID C))"
      by (rule distinct_take)
    then have "distinct (map EdgeNode.ID chosen)" by (simp add: chosen_def take_map)
    then show ?thesis by (simp only: ids)
  qed
  show ?thesis
    unfolding Let_def C_def [symmetric] chosen_def [symmetric]
    using run len ids each dist by blast
qed

text \<open>
  The theorem at the example registry: a constraint that leaves one candidate for two
  replicas, two candidates for two replicas, and two candidates for one replica.
\<close>

theorem scheduleWorkload_edge_first_witness:
  "Strategy (Workload.Placement (exampleWorkload 2 [regionEu])) = PlacementStrategyEdgeFirst
   \<and> 1 \<le> sint (Workload.Replicas (exampleWorkload 2 [regionEu]))
   \<and> candidateNodes exampleNodes exampleOrder [regionEu] = [exampleNode ''n1'' NodeStatusOnline ''eu'' 0]
   \<and> scheduleWorkload exampleNodes exampleOrder 7 (exampleWorkload 2 [regionEu]) =
       Return (None,
         (exampleWorkload 2 [regionEu])
           \<lparr>Deployments := [newDeployment 7 (exampleNode ''n1'' NodeStatusOnline ''eu'' 0)],
            Workload.Status := WorkloadStatusRunning, Workload.UpdatedAt := 7\<rparr>)
   \<and> scheduleWorkload exampleNodes exampleOrder 7 (exampleWorkload 2 []) =
       Return (None,
         (exampleWorkload 2 [])
           \<lparr>Deployments := [newDeployment 7 (exampleNode ''n1'' NodeStatusOnline ''eu'' 0),
                            newDeployment 7 (exampleNode ''n2'' NodeStatusOnline ''us'' 0)],
            Workload.Status := WorkloadStatusRunning, Workload.UpdatedAt := 7\<rparr>)
   \<and> scheduleWorkload exampleNodes exampleOrder 7 (exampleWorkload 1 []) =
       Return (None,
         (exampleWorkload 1 [])
           \<lparr>Deployments := [newDeployment 7 (exampleNode ''n1'' NodeStatusOnline ''eu'' 0)],
            Workload.Status := WorkloadStatusRunning, Workload.UpdatedAt := 7\<rparr>)"
  using scheduleWorkload_edge_first [of "exampleWorkload 2 [regionEu]" exampleNodes exampleOrder 7]
        scheduleWorkload_edge_first [of "exampleWorkload 2 []" exampleNodes exampleOrder 7]
        scheduleWorkload_edge_first [of "exampleWorkload 1 []" exampleNodes exampleOrder 7]
  by (simp add: exampleWorkload_fields example_candidates_eu example_candidates_all Let_def)

text \<open>
  Claim C2. When the candidate list of a pending workload is empty, \<^verbatim>\<open>scheduleWorkload\<close>
  returns an error and leaves the workload as it was. In a scheduling tick the visit of
  that workload only adds the error to the log, the registry goes on to the remaining
  workloads unchanged, and in the registry that a tick returns the workload is still the
  same pending workload, so the next tick schedules it again.
\<close>

theorem scheduleWorkload_no_candidates:
  assumes "Workload.Status w = WorkloadStatusPending"
      and "candidateNodes nodeMap order (Constraints (Workload.Placement w)) = []"
  shows "scheduleWorkload nodeMap order now w =
           Return (Some (''no suitable nodes found for workload '' @ Workload.Name w), w)
         \<and> (wm k = Some w \<and> nodeOrder k = order \<longrightarrow>
               scheduleWorkloads nodeMap nodeOrder now (k # ks) wm =
                 (case scheduleWorkloads nodeMap nodeOrder now ks wm of
                    Panic p \<Rightarrow> Panic p
                  | Return (errors, wm') \<Rightarrow>
                      Return ((''Failed to schedule workload '' @ Workload.Name w @ '': ''
                                 @ ''no suitable nodes found for workload '' @ Workload.Name w) # errors,
                              wm')))
         \<and> (wm k = Some w \<and> nodeOrder k = order
               \<and> scheduleWorkloads nodeMap nodeOrder now ks wm = Return (errors, wm')
             \<longrightarrow> wm' k = Some w \<and> Workload.Status w = WorkloadStatusPending)"
proof -
  have one: "scheduleWorkload nodeMap order now w =
      Return (Some (''no suitable nodes found for workload '' @ Workload.Name w), w)"
    by (rule scheduleWorkload_none [OF assms(2)])
  have step: "scheduleWorkloads nodeMap nodeOrder now (k # ks) wm =
      (case scheduleWorkloads nodeMap nodeOrder now ks wm of
         Panic p \<Rightarrow> Panic p
       | Return (errors, wm') \<Rightarrow>
           Return ((''Failed to schedule workload '' @ Workload.Name w @ '': ''
                      @ ''no suitable nodes found for workload '' @ Workload.Name w) # errors,
                   wm'))"
    if "wm k = Some w" and "nodeOrder k = order"
    using that assms(1) one by (simp add: map_upd_triv split: go.splits)
  have keep: "wm' k = Some w"
    if "wm k = Some w" and "nodeOrder k = order"
      and "scheduleWorkloads nodeMap nodeOrder now ks wm = Return (errors, wm')"
    using scheduleWorkloads_keeps [OF that(1) _ that(3)] assms(2) that(2) by simp
  show ?thesis using one step keep assms(1) by blast
qed

text \<open>
  The theorem at a workload whose only constraint asks for a region that no node has.
\<close>

theorem scheduleWorkload_no_candidates_witness:
  "Workload.Status (exampleWorkload 2 [regionMars]) = WorkloadStatusPending
   \<and> candidateNodes exampleNodes exampleOrder [regionMars] = []
   \<and> scheduleWorkload exampleNodes exampleOrder 7 (exampleWorkload 2 [regionMars]) =
       Return (Some ''no suitable nodes found for workload test-nginx'', exampleWorkload 2 [regionMars])
   \<and> scheduleWorkloads exampleNodes exampleNodeOrder 7 [''w1''] (exampleWorkloads 2 [regionMars]) =
       Return ([''Failed to schedule workload test-nginx: no suitable nodes found for workload test-nginx''],
               exampleWorkloads 2 [regionMars])"
  using scheduleWorkload_no_candidates
          [where w = "exampleWorkload 2 [regionMars]" and nodeMap = exampleNodes
             and order = exampleOrder and wm = "exampleWorkloads 2 [regionMars]" and k = "''w1''"
             and nodeOrder = exampleNodeOrder and now = 7 and ks = "[]"]
  by (simp add: exampleWorkload_fields example_candidates_mars exampleWorkloads_eq exampleNodeOrder_def)

text \<open>
  Claim C3. A node matches a list of placement constraints exactly when it satisfies each
  of them in the sense of the specification: the region or the zone of the node is among
  the values for the keys "region" and "zone", and for any other key the node has that
  label with a value among the values. An online node of the registry is a candidate
  exactly when it satisfies each constraint, and a constraint for region "eu" keeps every
  node of another region out of the candidates.
\<close>

theorem nodeMatchesConstraints_spec:
  "(nodeMatchesConstraints node cs \<longleftrightarrow> (\<forall>c \<in> set cs. constraintSatisfied node c))
   \<and> (nodeMap k = Some node \<and> k \<in> set order \<and> EdgeNode.Status node = NodeStatusOnline \<longrightarrow>
        (node \<in> set (candidateNodes nodeMap order cs) \<longleftrightarrow> (\<forall>c \<in> set cs. constraintSatisfied node c)))
   \<and> (\<lparr>Key = ''region'', Operator = ''In'', Values = [''eu'']\<rparr> \<in> set cs \<and> Region node \<noteq> ''eu'' \<longrightarrow>
        \<not> nodeMatchesConstraints node cs \<and> node \<notin> set (candidateNodes nodeMap order cs))"
proof -
  have a: "nodeMatchesConstraints node cs \<longleftrightarrow> (\<forall>c \<in> set cs. constraintSatisfied node c)"
    by (rule nodeMatchesConstraints_iff)
  have b: "node \<in> set (candidateNodes nodeMap order cs) \<longleftrightarrow> (\<forall>c \<in> set cs. constraintSatisfied node c)"
    if "nodeMap k = Some node" and "k \<in> set order" and "EdgeNode.Status node = NodeStatusOnline"
    using that by (auto simp: set_candidateNodes nodeMatchesConstraints_iff)
  have c: "\<not> nodeMatchesConstraints node cs \<and> node \<notin> set (candidateNodes nodeMap order cs)"
    if "\<lparr>Key = ''region'', Operator = ''In'', Values = [''eu'']\<rparr> \<in> set cs" and "Region node \<noteq> ''eu''"
  proof -
    have "\<not> constraintSatisfied node \<lparr>Key = ''region'', Operator = ''In'', Values = [''eu'']\<rparr>"
      using that(2) by (simp add: constraintSatisfied_def)
    with that(1) have "\<not> nodeMatchesConstraints node cs"
      unfolding nodeMatchesConstraints_iff by blast
    then show ?thesis by (simp add: set_candidateNodes)
  qed
  show ?thesis using a b c by blast
qed

text \<open>The theorem at the example nodes of the regions "eu" and "us".\<close>

theorem nodeMatchesConstraints_spec_witness:
  "nodeMatchesConstraints (exampleNode ''n1'' NodeStatusOnline ''eu'' 0) [regionEu]
   \<and> \<not> nodeMatchesConstraints (exampleNode ''n2'' NodeStatusOnline ''us'' 0) [regionEu]
   \<and> exampleNode ''n1'' NodeStatusOnline ''eu'' 0 \<in> set (candidateNodes exampleNodes exampleOrder [regionEu])
   \<and> exampleNode ''n2'' NodeStatusOnline ''us'' 0 \<notin> set (candidateNodes exampleNodes exampleOrder [regionEu])"
  using nodeMatchesConstraints_spec
          [where node = "exampleNode ''n1'' NodeStatusOnline ''eu'' 0" and cs = "[regionEu]"
             and nodeMap = exampleNodes and k = "''n1''" and order = exampleOrder]
        nodeMatchesConstraints_spec
          [where node = "exampleNode ''n2'' NodeStatusOnline ''us'' 0" and cs = "[regionEu]"
             and nodeMap = exampleNodes and k = "''n2''" and order = exampleOrder]
  by (simp add: constraintSatisfied_def regionEu_def exampleNode_def exampleNodes_def exampleOrder_def)

text \<open>
  Claim C4. One sweep that visits every node sets the status to offline, and
  \<^verbatim>\<open>UpdatedAt\<close> to the time of the sweep, for exactly the nodes whose last heartbeat is
  older than the threshold and whose status is not offline already; every other node is
  left as it was and no node is added or removed. A second sweep at the same instant
  changes nothing, and a sweep at any other instant leaves every node alone that was
  stale at the first one. The same holds for the sweep of the JavaScript registry, which
  has a threshold of five minutes and sets the status only.
\<close>

theorem checkNodeHealth_sweep:
  assumes "set order = dom nodes" and "set jsOrder = dom jsNodes"
  shows "(\<forall>k node. nodes k = Some node \<longrightarrow>
            checkNodeHealth now order nodes k =
              Some (if now - LastHeartbeat node > 2 * Minute \<and> EdgeNode.Status node \<noteq> NodeStatusOffline
                    then node\<lparr>EdgeNode.Status := NodeStatusOffline, EdgeNode.UpdatedAt := now\<rparr>
                    else node))
         \<and> dom (checkNodeHealth now order nodes) = dom nodes
         \<and> (\<forall>order'. checkNodeHealth now order' (checkNodeHealth now order nodes) =
                         checkNodeHealth now order nodes)
         \<and> (\<forall>now' order' k node. nodes k = Some node \<and> now - LastHeartbeat node > 2 * Minute \<longrightarrow>
               checkNodeHealth now' order' (checkNodeHealth now order nodes) k =
                 checkNodeHealth now order nodes k)
         \<and> (\<forall>k node. jsNodes k = Some node \<longrightarrow>
               checkNodesHealth jsNow jsOrder jsNodes k =
                 Some (if jsNow - lastSeen node > 5 * 60 * 1000 \<and> Node.status node \<noteq> ''OFFLINE''
                       then node\<lparr>Node.status := ''OFFLINE''\<rparr>
                       else node))
         \<and> dom (checkNodesHealth jsNow jsOrder jsNodes) = dom jsNodes
         \<and> (\<forall>order'. checkNodesHealth jsNow order' (checkNodesHealth jsNow jsOrder jsNodes) =
                         checkNodesHealth jsNow jsOrder jsNodes)
         \<and> (\<forall>now' order' k node. jsNodes k = Some node \<and> jsNow - lastSeen node > 5 * 60 * 1000 \<longrightarrow>
               checkNodesHealth now' order' (checkNodesHealth jsNow jsOrder jsNodes) k =
                 checkNodesHealth jsNow jsOrder jsNodes k)"
proof -
  let ?r = "checkNodeHealth now order nodes"
  let ?j = "checkNodesHealth jsNow jsOrder jsNodes"
  have r: "?r k = map_option (markOfflineIfStale now) (nodes k)" for k
    using assms(1) by (cases "nodes k") (auto simp: checkNodeHealth_lookup)
  have j: "?j k = map_option (markOfflineIfStaleJs jsNow) (jsNodes k)" for k
    using assms(2) by (cases "jsNodes k") (auto simp: checkNodesHealth_lookup)
  have g1: "\<forall>k node. nodes k = Some node \<longrightarrow>
      ?r k = Some (if now - LastHeartbeat node > 2 * Minute \<and> EdgeNode.Status node \<noteq> NodeStatusOffline
                   then node\<lparr>EdgeNode.Status := NodeStatusOffline, EdgeNode.UpdatedAt := now\<rparr>
                   else node)"
    by (simp add: r markOfflineIfStale_def)
  have g2: "dom ?r = dom nodes"
    by (auto simp: r dom_def)
  have g3: "\<forall>order'. checkNodeHealth now order' ?r = ?r"
  proof (intro allI ext)
    fix order' k
    show "checkNodeHealth now order' ?r k = ?r k"
      by (cases "nodes k") (simp_all add: checkNodeHealth_lookup [of now order' ?r] r markOfflineIfStale_twice)
  qed
  have g4: "\<forall>now' order' k node. nodes k = Some node \<and> now - LastHeartbeat node > 2 * Minute \<longrightarrow>
      checkNodeHealth now' order' ?r k = ?r k"
    by (simp add: checkNodeHealth_lookup [of _ _ ?r] r markOfflineIfStale_twice)
  have j1: "\<forall>k node. jsNodes k = Some node \<longrightarrow>
      ?j k = Some (if jsNow - lastSeen node > 5 * 60 * 1000 \<and> Node.status node \<noteq> ''OFFLINE''
                   then node\<lparr>Node.status := ''OFFLINE''\<rparr>
                   else node)"
    by (simp add: j markOfflineIfStaleJs_def)
  have j2: "dom ?j = dom jsNodes"
    by (auto simp: j dom_def)
  have j3: "\<forall>order'. checkNodesHealth jsNow order' ?j = ?j"
  proof (intro allI ext)
    fix order' k
    show "checkNodesHealth jsNow order' ?j k = ?j k"
      by (cases "jsNodes k") (simp_all add: checkNodesHealth_lookup [of jsNow order' ?j] j markOfflineIfStaleJs_twice)
  qed
  have j4: "\<forall>now' order' k node. jsNodes k = Some node \<and> jsNow - lastSeen node > 5 * 60 * 1000 \<longrightarrow>
      checkNodesHealth now' order' ?j k = ?j k"
    by (simp add: checkNodesHealth_lookup [of _ _ ?j] j markOfflineIfStaleJs_twice)
  from g1 g2 g3 g4 j1 j2 j3 j4 show ?thesis by blast
qed

text \<open>
  The theorem at the example registries: a node three minutes past its heartbeat goes
  offline, a node one minute past it stays, and sweeping again changes nothing.
\<close>

theorem checkNodeHealth_sweep_witness:
  "set exampleOrder = dom exampleNodes \<and> set exampleJsOrder = dom exampleJsNodes
   \<and> checkNodeHealth (3 * Minute) exampleOrder exampleNodes ''n1'' =
       Some ((exampleNode ''n1'' NodeStatusOnline ''eu'' 0)
               \<lparr>EdgeNode.Status := NodeStatusOffline, EdgeNode.UpdatedAt := 3 * Minute\<rparr>)
   \<and> checkNodeHealth Minute exampleOrder exampleNodes ''n1'' =
       Some (exampleNode ''n1'' NodeStatusOnline ''eu'' 0)
   \<and> checkNodeHealth (3 * Minute) exampleOrder (checkNodeHealth (3 * Minute) exampleOrder exampleNodes) =
       checkNodeHealth (3 * Minute) exampleOrder exampleNodes
   \<and> checkNodesHealth 300001 exampleJsOrder exampleJsNodes ''j1'' =
       Some ((exampleJsNode ''j1'' ''REGISTERED'' 0)\<lparr>Node.status := ''OFFLINE''\<rparr>)
   \<and> checkNodesHealth 300000 exampleJsOrder exampleJsNodes ''j1'' =
       Some (exampleJsNode ''j1'' ''REGISTERED'' 0)"
proof -
  have d: "set exampleOrder = dom exampleNodes"
    by (auto simp: exampleOrder_def exampleNodes_def)
  have dj: "set exampleJsOrder = dom exampleJsNodes"
    by (auto simp: exampleJsOrder_def exampleJsNodes_def)
  have n1: "exampleNodes ''n1'' = Some (exampleNode ''n1'' NodeStatusOnline ''eu'' 0)"
    by (simp add: exampleNodes_def)
  have j1: "exampleJsNodes ''j1'' = Some (exampleJsNode ''j1'' ''REGISTERED'' 0)"
    by (simp add: exampleJsNodes_def)
  show ?thesis
    using checkNodeHealth_sweep [OF d dj, of "3 * Minute" 300001]
          checkNodeHealth_sweep [OF d dj, of Minute 300000] d dj n1 j1
    by (simp add: exampleNode_def exampleJsNode_def Minute_def Second_def)
qed

text \<open>
  Claim C5, as stated, fails: the sweep tests the status against offline only, so a
  degraded node whose heartbeat is three minutes old is set offline, in the Go registry
  and in the JavaScript one.
\<close>

theorem checkNodeHealth_degraded_counterexample:
  "exampleNodes ''n3'' = Some (exampleNode ''n3'' NodeStatusDegraded ''eu'' 0)
   \<and> EdgeNode.Status (exampleNode ''n3'' NodeStatusDegraded ''eu'' 0) = NodeStatusDegraded
   \<and> checkNodeHealth (3 * Minute) exampleOrder exampleNodes ''n3'' =
       Some ((exampleNode ''n3'' NodeStatusDegraded ''eu'' 0)
               \<lparr>EdgeNode.Status := NodeStatusOffline, EdgeNode.UpdatedAt := 3 * Minute\<rparr>)
   \<and> checkNodeHealth (3 * Minute) exampleOrder exampleNodes ''n3'' \<noteq> exampleNodes ''n3''
   \<and> exampleJsNodes ''j2'' = Some (exampleJsNode ''j2'' ''DEGRADED'' 0)
   \<and> checkNodesHealth 300001 exampleJsOrder exampleJsNodes ''j2'' =
       Some ((exampleJsNode ''j2'' ''DEGRADED'' 0)\<lparr>Node.status := ''OFFLINE''\<rparr>)"
  by (simp add: exampleNodes_def exampleOrder_def exampleNode_def time_Since_def time_Sub_def
        Minute_def Second_def maxDuration_def minDuration_def
        exampleJsNodes_def exampleJsOrder_def exampleJsNode_def)

text \<open>
  Claim C5, amended. The sweep leaves a degraded node or a node in maintenance as it is
  while its last heartbeat is not older than the threshold; once it is older, the sweep
  sets the node offline like any other node that is not offline. The sweep never gives a
  node the status degraded or maintenance: a node with such a status after the sweep
  is a node that the sweep has left as it was.
\<close>

theorem checkNodeHealth_degraded_maintenance:
  assumes "nodes k = Some node" and "k \<in> set order"
      and "EdgeNode.Status node = NodeStatusDegraded \<or> EdgeNode.Status node = NodeStatusMaintenance"
  shows "(now - LastHeartbeat node \<le> 2 * Minute \<longrightarrow> checkNodeHealth now order nodes k = Some node)
         \<and> (now - LastHeartbeat node > 2 * Minute \<longrightarrow>
              checkNodeHealth now order nodes k =
                Some (node\<lparr>EdgeNode.Status := NodeStatusOffline, EdgeNode.UpdatedAt := now\<rparr>))
         \<and> (\<forall>k' n. checkNodeHealth now order nodes k' = Some n
                \<and> (EdgeNode.Status n = NodeStatusDegraded \<or> EdgeNode.Status n = NodeStatusMaintenance)
              \<longrightarrow> nodes k' = Some n)
         \<and> (jsNodes j = Some jsNode \<and> j \<in> set jsOrder
              \<and> (Node.status jsNode = ''DEGRADED'' \<or> Node.status jsNode = ''MAINTENANCE'') \<longrightarrow>
              checkNodesHealth jsNow jsOrder jsNodes j =
                Some (if jsNow - lastSeen jsNode > 5 * 60 * 1000
                      then jsNode\<lparr>Node.status := ''OFFLINE''\<rparr> else jsNode))"
proof -
  have a: "checkNodeHealth now order nodes k = Some (markOfflineIfStale now node)"
    using assms(1,2) by (simp add: checkNodeHealth_lookup)
  have b: "EdgeNode.Status node \<noteq> NodeStatusOffline"
    using assms(3) by auto
  have c: "nodes k' = Some n"
    if "checkNodeHealth now order nodes k' = Some n"
      and "EdgeNode.Status n = NodeStatusDegraded \<or> EdgeNode.Status n = NodeStatusMaintenance"
    for k' n
  proof (cases "nodes k'")
    case None
    with that(1) show ?thesis by (simp add: checkNodeHealth_lookup split: if_splits)
  next
    case (Some m)
    with that(1) have "n = m \<or> n = markOfflineIfStale now m"
      by (auto simp: checkNodeHealth_lookup split: if_splits)
    with that(2) have "n = m"
      by (auto simp: markOfflineIfStale_def split: if_splits)
    with Some show ?thesis by simp
  qed
  have d: "checkNodesHealth jsNow jsOrder jsNodes j =
      Some (if jsNow - lastSeen jsNode > 5 * 60 * 1000
            then jsNode\<lparr>Node.status := ''OFFLINE''\<rparr> else jsNode)"
    if "jsNodes j = Some jsNode" and "j \<in> set jsOrder"
      and "Node.status jsNode = ''DEGRADED'' \<or> Node.status jsNode = ''MAINTENANCE''"
    using that by (auto simp: checkNodesHealth_lookup markOfflineIfStaleJs_def)
  have go: "(now - LastHeartbeat node \<le> 2 * Minute \<longrightarrow> checkNodeHealth now order nodes k = Some node)
      \<and> (now - LastHeartbeat node > 2 * Minute \<longrightarrow>
           checkNodeHealth now order nodes k =
             Some (node\<lparr>EdgeNode.Status := NodeStatusOffline, EdgeNode.UpdatedAt := now\<rparr>))"
    using a b by (auto simp: markOfflineIfStale_def)
  show ?thesis using go c d by blast
qed

text \<open>The degraded example node exactly at the threshold and one nanosecond past it.\<close>

theorem checkNodeHealth_degraded_maintenance_witness:
  "exampleNodes ''n3'' = Some (exampleNode ''n3'' NodeStatusDegraded ''eu'' 0)
   \<and> ''n3'' \<in> set exampleOrder
   \<and> checkNodeHealth (2 * Minute) exampleOrder exampleNodes ''n3'' =
       Some (exampleNode ''n3'' NodeStatusDegraded ''eu'' 0)
   \<and> checkNodeHealth (2 * Minute + 1) exampleOrder exampleNodes ''n3'' =
       Some ((exampleNode ''n3'' NodeStatusDegraded ''eu'' 0)
               \<lparr>EdgeNode.Status := NodeStatusOffline, EdgeNode.UpdatedAt := 2 * Minute + 1\<rparr>)"
proof -
  have n3: "exampleNodes ''n3'' = Some (exampleNode ''n3'' NodeStatusDegraded ''eu'' 0)"
    by (simp add: exampleNodes_def)
  have o: "''n3'' \<in> set exampleOrder"
    by (simp add: exampleOrder_def)
  have s: "EdgeNode.Status (exampleNode ''n3'' NodeStatusDegraded ''eu'' 0) = NodeStatusDegraded
           \<or> EdgeNode.Status (exampleNode ''n3'' NodeStatusDegraded ''eu'' 0) = NodeStatusMaintenance"
    by (simp add: exampleNode_def)
  show ?thesis
    using checkNodeHealth_degraded_maintenance
            [where nodes = exampleNodes and k = "''n3''" and order = exampleOrder
               and node = "exampleNode ''n3'' NodeStatusDegraded ''eu'' 0" and now = "2 * Minute"]
          checkNodeHealth_degraded_maintenance
            [where nodes = exampleNodes and k = "''n3''" and order = exampleOrder
               and node = "exampleNode ''n3'' NodeStatusDegraded ''eu'' 0" and now = "2 * Minute + 1"]
          n3 o s
    by (simp add: exampleNode_def Minute_def Second_def)
qed

text \<open>
  Claim C6, as stated, fails on the JavaScript orchestrator: a request with name, type
  and image is accepted and stored, and the status of the new workload is CREATED, not
  pending.
\<close>

theorem createWorkload_status_counterexample:
  "fst (postWorkloads noJsWorkloads 5 ''u1'' exampleSpec) =
     (201, Some (fst (createWorkload noJsWorkloads 5 ''u1'' exampleSpec)))
   \<and> noJsWorkloads ''u1'' = None
   \<and> snd (postWorkloads noJsWorkloads 5 ''u1'' exampleSpec) ''u1'' =
       Some (fst (createWorkload noJsWorkloads 5 ''u1'' exampleSpec))
   \<and> JsWorkload.status (fst (createWorkload noJsWorkloads 5 ''u1'' exampleSpec)) = ''CREATED''
   \<and> JsWorkload.status (fst (createWorkload noJsWorkloads 5 ''u1'' exampleSpec)) \<noteq> ''PENDING''
   \<and> JsWorkload.status (fst (createWorkload noJsWorkloads 5 ''u1'' exampleSpec)) \<noteq> WorkloadStatusPending"
  by (simp add: postWorkloads_def createWorkload_def falsy_def exampleSpec_def noJsWorkloads_def Let_def)

text \<open>
  Claim C6, amended. In the Go orchestrator, creation rejects a request whose name, type
  or image is missing with a validation error and leaves the registry as it was. Every
  other request is stored under the fresh id as a pending workload with no deployments,
  the namespace "default" when the request has none, one replica when the request has
  none, empty label and environment maps when the request has none, the strategy
  edge-first when the request has none, and the selector of the name and the id. In the
  JavaScript orchestrator, the route rejects a request whose name, type or image is
  missing and leaves the registry as it was; every other request is stored under the
  fresh id with the status CREATED, its creation time, empty resource and configuration
  maps and an empty list of target nodes where the request has none. That workload has
  no namespace, replica count, labels, environment, placement or selector.
\<close>

theorem DeployWorkload_createWorkload:
  "((WorkloadDeploymentRequest.Name req = [] \<or> WorkloadDeploymentRequest.Type req = []
      \<or> WorkloadDeploymentRequest.Image req = [] \<longrightarrow>
      (\<exists>err. DeployWorkload req workloadID now wm = (StatusBadRequest err, wm)))
   \<and> (WorkloadDeploymentRequest.Name req \<noteq> [] \<and> WorkloadDeploymentRequest.Type req \<noteq> []
      \<and> WorkloadDeploymentRequest.Image req \<noteq> [] \<longrightarrow>
      (\<exists>workload.
         DeployWorkload req workloadID now wm =
           (StatusCreated workloadID workload, wm(workloadID \<mapsto> workload))
         \<and> workload = createdWorkload req workloadID now
         \<and> Workload.ID workload = workloadID
         \<and> Workload.Name workload = WorkloadDeploymentRequest.Name req
         \<and> Workload.Type workload = WorkloadDeploymentRequest.Type req
         \<and> Workload.Image workload = WorkloadDeploymentRequest.Image req
         \<and> Workload.Namespace workload =
             (if WorkloadDeploymentRequest.Namespace req = [] then ''default''
              else WorkloadDeploymentRequest.Namespace req)
         \<and> Workload.Replicas workload =
             (if WorkloadDeploymentRequest.Replicas req = 0 then 1
              else WorkloadDeploymentRequest.Replicas req)
         \<and> Workload.Labels workload =
             (case WorkloadDeploymentRequest.Labels req of
                None \<Rightarrow> Some Map.empty | Some labels \<Rightarrow> Some labels)
         \<and> Workload.Environment workload =
             (case WorkloadDeploymentRequest.Environment req of
                None \<Rightarrow> Some Map.empty | Some env \<Rightarrow> Some env)
         \<and> Strategy (Workload.Placement workload) =
             (if Strategy (WorkloadDeploymentRequest.Placement req) = []
              then PlacementStrategyEdgeFirst
              else Strategy (WorkloadDeploymentRequest.Placement req))
         \<and> Constraints (Workload.Placement workload) =
             Constraints (WorkloadDeploymentRequest.Placement req)
         \<and> Workload.Status workload = WorkloadStatusPending
         \<and> Deployments workload = []
         \<and> Selector workload =
             [''app'' \<mapsto> WorkloadDeploymentRequest.Name req, ''workload-id'' \<mapsto> workloadID])))
   \<and> (let created =
           \<lparr>JsWorkload.id' = uuid,
            JsWorkload.name = WorkloadSpec.name workloadSpec,
            JsWorkload.type' = WorkloadSpec.type' workloadSpec,
            JsWorkload.image' = WorkloadSpec.image' workloadSpec,
            JsWorkload.resources =
              (case WorkloadSpec.resources workloadSpec of None \<Rightarrow> Map.empty | Some r \<Rightarrow> r),
            JsWorkload.config =
              (case WorkloadSpec.config workloadSpec of None \<Rightarrow> Map.empty | Some c \<Rightarrow> c),
            JsWorkload.status = ''CREATED'',
            JsWorkload.createdAt = jsNow,
            JsWorkload.targetNodes =
              (case WorkloadSpec.targetNodes workloadSpec of None \<Rightarrow> [] | Some ns \<Rightarrow> ns)\<rparr>
       in createWorkload jsWm jsNow uuid workloadSpec = (created, jsWm(uuid \<mapsto> created))
          \<and> (falsy (WorkloadSpec.name workloadSpec) \<or> falsy (WorkloadSpec.type' workloadSpec)
               \<or> falsy (WorkloadSpec.image' workloadSpec) \<longrightarrow>
               postWorkloads jsWm jsNow uuid workloadSpec = ((400, None), jsWm))
          \<and> (\<not> falsy (WorkloadSpec.name workloadSpec) \<and> \<not> falsy (WorkloadSpec.type' workloadSpec)
               \<and> \<not> falsy (WorkloadSpec.image' workloadSpec) \<longrightarrow>
               postWorkloads jsWm jsNow uuid workloadSpec =
                 ((201, Some created), jsWm(uuid \<mapsto> created))))"
proof -
  have go: "(WorkloadDeploymentRequest.Name req = [] \<or> WorkloadDeploymentRequest.Type req = []
      \<or> WorkloadDeploymentRequest.Image req = [] \<longrightarrow>
      (\<exists>err. DeployWorkload req workloadID now wm = (StatusBadRequest err, wm)))
   \<and> (WorkloadDeploymentRequest.Name req \<noteq> [] \<and> WorkloadDeploymentRequest.Type req \<noteq> []
      \<and> WorkloadDeploymentRequest.Image req \<noteq> [] \<longrightarrow>
      (\<exists>workload.
         DeployWorkload req workloadID now wm =
           (StatusCreated workloadID workload, wm(workloadID \<mapsto> workload))
         \<and> workload = createdWorkload req workloadID now
         \<and> Workload.ID workload = workloadID
         \<and> Workload.Name workload = WorkloadDeploymentRequest.Name req
         \<and> Workload.Type workload = WorkloadDeploymentRequest.Type req
         \<and> Workload.Image workload = WorkloadDeploymentRequest.Image req
         \<and> Workload.Namespace workload =
             (if WorkloadDeploymentRequest.Namespace req = [] then ''default''
              else WorkloadDeploymentRequest.Namespace req)
         \<and> Workload.Replicas workload =
             (if WorkloadDeploymentRequest.Replicas req = 0 then 1
              else WorkloadDeploymentRequest.Replicas req)
         \<and> Workload.Labels workload =
             (case WorkloadDeploymentRequest.Labels req of
                None \<Rightarrow> Some Map.empty | Some labels \<Rightarrow> Some labels)
         \<and> Workload.Environment workload =
             (case WorkloadDeploymentRequest.Environment req of
                None \<Rightarrow> Some Map.empty | Some env \<Rightarrow> Some env)
         \<and> Strategy (Workload.Placement workload) =
             (if Strategy (WorkloadDeploymentRequest.Placement req) = []
              then PlacementStrategyEdgeFirst
              else Strategy (WorkloadDeploymentRequest.Placement req))
         \<and> Constraints (Workload.Placement workload) =
             Constraints (WorkloadDeploymentRequest.Placement req)
         \<and> Workload.Status workload = WorkloadStatusPending
         \<and> Deployments workload = []
         \<and> Selector workload =
             [''app'' \<mapsto> WorkloadDeploymentRequest.Name req, ''workload-id'' \<mapsto> workloadID]))"
  proof (intro conjI impI)
    assume "WorkloadDeploymentRequest.Name req = [] \<or> WorkloadDeploymentRequest.Type req = []
        \<or> WorkloadDeploymentRequest.Image req = []"
    then have "bindWorkloadDeploymentRequest req \<noteq> None"
      by (auto simp: bindWorkloadDeploymentRequest_def)
    then obtain err where "bindWorkloadDeploymentRequest req = Some err" by blast
    then have "DeployWorkload req workloadID now wm = (StatusBadRequest err, wm)"
      by (simp add: DeployWorkload_def)
    then show "\<exists>err. DeployWorkload req workloadID now wm = (StatusBadRequest err, wm)" ..
  next
    assume "WorkloadDeploymentRequest.Name req \<noteq> [] \<and> WorkloadDeploymentRequest.Type req \<noteq> []
        \<and> WorkloadDeploymentRequest.Image req \<noteq> []"
    then have "bindWorkloadDeploymentRequest req = None"
      by (simp add: bindWorkloadDeploymentRequest_def)
    then have run: "DeployWorkload req workloadID now wm =
        (StatusCreated workloadID (createdWorkload req workloadID now),
         wm(workloadID \<mapsto> createdWorkload req workloadID now))"
      by (rule DeployWorkload_bound)
    show "\<exists>workload.
           DeployWorkload req workloadID now wm =
             (StatusCreated workloadID workload, wm(workloadID \<mapsto> workload))
           \<and> workload = createdWorkload req workloadID now
           \<and> Workload.ID workload = workloadID
           \<and> Workload.Name workload = WorkloadDeploymentRequest.Name req
           \<and> Workload.Type workload = WorkloadDeploymentRequest.Type req
           \<and> Workload.Image workload = WorkloadDeploymentRequest.Image req
           \<and> Workload.Namespace workload =
               (if WorkloadDeploymentRequest.Namespace req = [] then ''default''
                else WorkloadDeploymentRequest.Namespace req)
           \<and> Workload.Replicas workload =
               (if WorkloadDeploymentRequest.Replicas req = 0 then 1
                else WorkloadDeploymentRequest.Replicas req)
           \<and> Workload.Labels workload =
               (case WorkloadDeploymentRequest.Labels req of
                  None \<Rightarrow> Some Map.empty | Some labels \<Rightarrow> Some labels)
           \<and> Workload.Environment workload =
               (case WorkloadDeploymentRequest.Environment req of
                  None \<Rightarrow> Some Map.empty | Some env \<Rightarrow> Some env)
           \<and> Strategy (Workload.Placement workload) =
               (if Strategy (WorkloadDeploymentRequest.Placement req) = []
                then PlacementStrategyEdgeFirst
                else Strategy (WorkloadDeploymentRequest.Placement req))
           \<and> Constraints (Workload.Placement workload) =
               Constraints (WorkloadDeploymentRequest.Placement req)
           \<and> Workload.Status workload = WorkloadStatusPending
           \<and> Deployments workload = []
           \<and> Selector workload =
               [''app'' \<mapsto> WorkloadDeploymentRequest.Name req, ''workload-id'' \<mapsto> workloadID]"
      by (rule exI [of _ "createdWorkload req workloadID now"])
         (simp add: run, simp add: createdWorkload_def)
  qed
  have js: "(let created =
           \<lparr>JsWorkload.id' = uuid,
            JsWorkload.name = WorkloadSpec.name workloadSpec,
            JsWorkload.type' = WorkloadSpec.type' workloadSpec,
            JsWorkload.image' = WorkloadSpec.image' workloadSpec,
            JsWorkload.resources =
              (case WorkloadSpec.resources workloadSpec of None \<Rightarrow> Map.empty | Some r \<Rightarrow> r),
            JsWorkload.config =
              (case WorkloadSpec.config workloadSpec of None \<Rightarrow> Map.empty | Some c \<Rightarrow> c),
            JsWorkload.status = ''CREATED'',
            JsWorkload.createdAt = jsNow,
            JsWorkload.targetNodes =
              (case WorkloadSpec.targetNodes workloadSpec of None \<Rightarrow> [] | Some ns \<Rightarrow> ns)\<rparr>
       in createWorkload jsWm jsNow uuid workloadSpec = (created, jsWm(uuid \<mapsto> created))
          \<and> (falsy (WorkloadSpec.name workloadSpec) \<or> falsy (WorkloadSpec.type' workloadSpec)
               \<or> falsy (WorkloadSpec.image' workloadSpec) \<longrightarrow>
               postWorkloads jsWm jsNow uuid workloadSpec = ((400, None), jsWm))
          \<and> (\<not> falsy (WorkloadSpec.name workloadSpec) \<and> \<not> falsy (WorkloadSpec.type' workloadSpec)
               \<and> \<not> falsy (WorkloadSpec.image' workloadSpec) \<longrightarrow>
               postWorkloads jsWm jsNow uuid workloadSpec =
                 ((201, Some created), jsWm(uuid \<mapsto> created))))"
    by (auto simp: postWorkloads_def createWorkload_def Let_def)
  show ?thesis by (rule conjI) (fact go, fact js)
qed

text \<open>
  The theorem at a Go request without namespace and replica count, at a Go request
  without image, and at a JavaScript request with and without image.
\<close>

theorem DeployWorkload_createWorkload_witness:
  "WorkloadDeploymentRequest.Name (exampleRequest 0 [regionEu]) \<noteq> []
   \<and> DeployWorkload (exampleRequest 0 [regionEu]) ''w1'' 5 Map.empty =
       (StatusCreated ''w1'' (createdWorkload (exampleRequest 0 [regionEu]) ''w1'' 5),
        [''w1'' \<mapsto> createdWorkload (exampleRequest 0 [regionEu]) ''w1'' 5])
   \<and> Workload.Replicas (createdWorkload (exampleRequest 0 [regionEu]) ''w1'' 5) = 1
   \<and> Workload.Namespace (createdWorkload (exampleRequest 0 [regionEu]) ''w1'' 5) = ''default''
   \<and> Workload.Status (createdWorkload (exampleRequest 0 [regionEu]) ''w1'' 5) = WorkloadStatusPending
   \<and> (\<exists>err. DeployWorkload ((exampleRequest 2 [])\<lparr>WorkloadDeploymentRequest.Image := []\<rparr>) ''w2'' 5
               (exampleWorkloads 2 []) = (StatusBadRequest err, exampleWorkloads 2 []))
   \<and> \<not> falsy (WorkloadSpec.name exampleSpec)
   \<and> (\<exists>created. postWorkloads noJsWorkloads 5 ''u1'' exampleSpec =
                   ((201, Some created), noJsWorkloads(''u1'' \<mapsto> created))
          \<and> JsWorkload.status created = ''CREATED'')
   \<and> postWorkloads noJsWorkloads 5 ''u1'' (exampleSpec\<lparr>WorkloadSpec.image' := None\<rparr>) =
       ((400, None), noJsWorkloads)"
proof -
  note go = DeployWorkload_createWorkload [THEN conjunct1]
  note js = DeployWorkload_createWorkload [THEN conjunct2]
  have g: "WorkloadDeploymentRequest.Name (exampleRequest 0 [regionEu]) \<noteq> []
   \<and> DeployWorkload (exampleRequest 0 [regionEu]) ''w1'' 5 Map.empty =
       (StatusCreated ''w1'' (createdWorkload (exampleRequest 0 [regionEu]) ''w1'' 5),
        [''w1'' \<mapsto> createdWorkload (exampleRequest 0 [regionEu]) ''w1'' 5])
   \<and> Workload.Replicas (createdWorkload (exampleRequest 0 [regionEu]) ''w1'' 5) = 1
   \<and> Workload.Namespace (createdWorkload (exampleRequest 0 [regionEu]) ''w1'' 5) = ''default''
   \<and> Workload.Status (createdWorkload (exampleRequest 0 [regionEu]) ''w1'' 5) = WorkloadStatusPending
   \<and> (\<exists>err. DeployWorkload ((exampleRequest 2 [])\<lparr>WorkloadDeploymentRequest.Image := []\<rparr>) ''w2'' 5
               (exampleWorkloads 2 []) = (StatusBadRequest err, exampleWorkloads 2 []))"
    using go [of "exampleRequest 0 [regionEu]" "''w1''" 5 Map.empty]
          go [of "(exampleRequest 2 [])\<lparr>WorkloadDeploymentRequest.Image := []\<rparr>"
                 "''w2''" 5 "exampleWorkloads 2 []"]
    by (auto simp: exampleRequest_def)
  have j1: "\<not> falsy (WorkloadSpec.name exampleSpec)
   \<and> (\<exists>created. postWorkloads noJsWorkloads 5 ''u1'' exampleSpec =
                   ((201, Some created), noJsWorkloads(''u1'' \<mapsto> created))
          \<and> JsWorkload.status created = ''CREATED'')"
    using js [of "''u1''" exampleSpec 5 noJsWorkloads]
    by (simp add: Let_def falsy_def exampleSpec_def)
  have j2: "postWorkloads noJsWorkloads 5 ''u1'' (exampleSpec\<lparr>WorkloadSpec.image' := None\<rparr>) =
       ((400, None), noJsWorkloads)"
    using js [of "''u1''" "exampleSpec\<lparr>WorkloadSpec.image' := None\<rparr>" 5 noJsWorkloads]
    by (simp add: Let_def falsy_def)
  from g j1 j2 show ?thesis by blast
qed

text \<open>
  Claim C7, as stated, fails for the replica count 0: the request struct marks the count
  as required, the binding rejects a zero count, and the running workload keeps its two
  replicas and its status.
\<close>

theorem ScaleWorkload_zero_counterexample:
  "exampleRunning ''w1'' =
     Some ((exampleWorkload 2 [])
        \<lparr>Deployments := [newDeployment 1 (exampleNode ''n1'' NodeStatusOnline ''eu'' 0),
                         newDeployment 1 (exampleNode ''n2'' NodeStatusOnline ''us'' 0)],
         Workload.Status := WorkloadStatusRunning, Workload.UpdatedAt := 1\<rparr>)
   \<and> Workload.Replicas (exampleWorkload 2 []) = 2
   \<and> ScaleWorkload ''w1'' \<lparr>ScaleWorkloadRequest.Replicas = 0\<rparr> 2 exampleRunning =
       (StatusBadRequest ''Replicas: failed on the required tag'', exampleRunning)"
  by (simp add: exampleRunning_eq exampleWorkload_fields ScaleWorkload_def bindScaleWorkloadRequest_def)

text \<open>
  Claim C7, amended. For a replica count other than 0, scaling an existing workload sets
  the count, sets the status to pending whatever it was, and sets \<^verbatim>\<open>UpdatedAt\<close>; for
  an unknown id it answers not found and changes nothing. A request with the count 0 is
  rejected with a validation error and changes nothing.
\<close>

theorem ScaleWorkload_scale:
  "(ScaleWorkloadRequest.Replicas req \<noteq> 0 \<longrightarrow>
      (\<forall>workload. wm workloadID = Some workload \<longrightarrow>
         ScaleWorkload workloadID req now wm =
           (StatusOK ''Workload scaled successfully''
              (workload\<lparr>Workload.Replicas := ScaleWorkloadRequest.Replicas req,
                        Workload.Status := WorkloadStatusPending, Workload.UpdatedAt := now\<rparr>),
            wm(workloadID \<mapsto>
              workload\<lparr>Workload.Replicas := ScaleWorkloadRequest.Replicas req,
                        Workload.Status := WorkloadStatusPending, Workload.UpdatedAt := now\<rparr>)))
      \<and> (wm workloadID = None \<longrightarrow>
           ScaleWorkload workloadID req now wm = (StatusNotFound ''Workload not found'', wm)))
   \<and> (ScaleWorkloadRequest.Replicas req = 0 \<longrightarrow>
        (\<exists>err. ScaleWorkload workloadID req now wm = (StatusBadRequest err, wm)))"
proof (intro conjI impI allI)
  fix workload
  assume "ScaleWorkloadRequest.Replicas req \<noteq> 0" and "wm workloadID = Some workload"
  then show "ScaleWorkload workloadID req now wm =
      (StatusOK ''Workload scaled successfully''
         (workload\<lparr>Workload.Replicas := ScaleWorkloadRequest.Replicas req,
                   Workload.Status := WorkloadStatusPending, Workload.UpdatedAt := now\<rparr>),
       wm(workloadID \<mapsto>
         workload\<lparr>Workload.Replicas := ScaleWorkloadRequest.Replicas req,
                   Workload.Status := WorkloadStatusPending, Workload.UpdatedAt := now\<rparr>))"
    by (simp add: ScaleWorkload_def bindScaleWorkloadRequest_def Let_def)
next
  assume "ScaleWorkloadRequest.Replicas req \<noteq> 0" and "wm workloadID = None"
  then show "ScaleWorkload workloadID req now wm = (StatusNotFound ''Workload not found'', wm)"
    by (simp add: ScaleWorkload_def bindScaleWorkloadRequest_def)
next
  assume "ScaleWorkloadRequest.Replicas req = 0"
  then have "ScaleWorkload workloadID req now wm =
      (StatusBadRequest ''Replicas: failed on the required tag'', wm)"
    by (simp add: ScaleWorkload_def bindScaleWorkloadRequest_def)
  then show "\<exists>err. ScaleWorkload workloadID req now wm = (StatusBadRequest err, wm)" ..
qed

text \<open>
  Scaling the running example workload to three replicas, scaling an unknown id, and
  scaling to zero.
\<close>

theorem ScaleWorkload_scale_witness:
  "ScaleWorkload ''w1'' \<lparr>ScaleWorkloadRequest.Replicas = 3\<rparr> 2 exampleRunning =
     (StatusOK ''Workload scaled successfully''
        ((exampleWorkload 2 [])
           \<lparr>Deployments := [newDeployment 1 (exampleNode ''n1'' NodeStatusOnline ''eu'' 0),
                            newDeployment 1 (exampleNode ''n2'' NodeStatusOnline ''us'' 0)],
            Workload.Status := WorkloadStatusRunning, Workload.UpdatedAt := 1,
            Workload.Replicas := 3, Workload.Status := WorkloadStatusPending, Workload.UpdatedAt := 2\<rparr>),
      [''w1'' \<mapsto> (exampleWorkload 2 [])
           \<lparr>Deployments := [newDeployment 1 (exampleNode ''n1'' NodeStatusOnline ''eu'' 0),
                            newDeployment 1 (exampleNode ''n2'' NodeStatusOnline ''us'' 0)],
            Workload.Status := WorkloadStatusRunning, Workload.UpdatedAt := 1,
            Workload.Replicas := 3, Workload.Status := WorkloadStatusPending, Workload.UpdatedAt := 2\<rparr>])
   \<and> ScaleWorkload ''w9'' \<lparr>ScaleWorkloadRequest.Replicas = 3\<rparr> 2 exampleRunning =
       (StatusNotFound ''Workload not found'', exampleRunning)
   \<and> (\<exists>err. ScaleWorkload ''w1'' \<lparr>ScaleWorkloadRequest.Replicas = 0\<rparr> 2 exampleRunning =
               (StatusBadRequest err, exampleRunning))"
  using ScaleWorkload_scale [of "\<lparr>ScaleWorkloadRequest.Replicas = 3\<rparr>" exampleRunning "''w1''" 2]
        ScaleWorkload_scale [of "\<lparr>ScaleWorkloadRequest.Replicas = 3\<rparr>" exampleRunning "''w9''" 2]
        ScaleWorkload_scale [of "\<lparr>ScaleWorkloadRequest.Replicas = 0\<rparr>" exampleRunning "''w1''" 2]
  by (simp add: exampleRunning_eq)

text \<open>
  Claim C8, as stated, fails in two places. The expiry is thirty calendar days of local
  time after the first reading of the clock, and the creation time is a second reading:
  where the offset of the time zone grows by an hour in between, the token expires an
  hour before thirty days have passed, and with three milliseconds between the readings
  it expires three milliseconds before thirty days after its creation time. And when a
  second issuance draws the secret of the first, the earlier secret validates.
\<close>

theorem generateToken_counterexample:
  "exampleTokens zoneWithChange ''node-1'' =
     Some \<lparr>token = ''secret-a'', expiresAt = Some (1000 + 30 * msPerDay - 3600000), createdAt = 1003\<rparr>
   \<and> \<not> validateToken (exampleTokens zoneWithChange) (1003 + 30 * msPerDay - 1800000) ''node-1'' ''secret-a''
   \<and> exampleTokens zoneUTC ''node-1'' =
       Some \<lparr>token = ''secret-a'', expiresAt = Some (1000 + 30 * msPerDay), createdAt = 1003\<rparr>
   \<and> \<not> validateToken (exampleTokens zoneUTC) (1003 + 30 * msPerDay) ''node-1'' ''secret-a''
   \<and> validateToken (snd (generateToken (exampleTokens zoneUTC) zoneUTC 2000 2000 ''secret-a'' ''node-1''))
        2000 ''node-1'' ''secret-a''"
  by (simp add: exampleTokens_change exampleTokens_UTC validateToken_def dateAfter_def
        generateToken_eq LocalTime_def UTC_def zoneUTC_def TimeClip_def msPerDay_def)

text \<open>
  Claim C8, amended. \<^verbatim>\<open>validateToken\<close> is true exactly when the store has an entry for
  the node whose secret is the given one and whose expiry the current time has not
  passed. Issuance stores, in place of any earlier entry, the secret with the expiry that
  lies thirty calendar days of local time after its first reading of the clock, which is
  thirty times 24 hours after that reading when the time zone has the same offset at both
  ends, and with a second reading of the clock as creation time; after it exactly the new
  secret validates, until the expiry. Two secrets that validate for a node are the same
  secret. An earlier secret that differs from the new one, a revoked token and an expired
  token do not validate; revocation removes the entry and tells whether there was one.
\<close>

theorem validateToken_generateToken:
  "(validateToken tokens now nodeId tok \<longleftrightarrow>
      (\<exists>info. tokens nodeId = Some info \<and> token info = tok \<and> \<not> dateAfter now (expiresAt info)))
   \<and> generateToken tokens tza issued issued' secret nodeId =
       (secret, tokens(nodeId \<mapsto>
          \<lparr>token = secret, expiresAt = TimeClip (UTC tza (LocalTime tza issued + 30 * msPerDay)),
           createdAt = issued'\<rparr>))
   \<and> (tza issued True = tza (LocalTime tza issued + 30 * msPerDay) False \<longrightarrow>
        generateToken tokens tza issued issued' secret nodeId =
          (secret, tokens(nodeId \<mapsto>
             \<lparr>token = secret, expiresAt = TimeClip (issued + 30 * msPerDay), createdAt = issued'\<rparr>)))
   \<and> (validateToken (snd (generateToken tokens tza issued issued' secret nodeId)) now nodeId tok \<longleftrightarrow>
        tok = secret \<and> \<not> dateAfter now (TimeClip (UTC tza (LocalTime tza issued + 30 * msPerDay))))
   \<and> (validateToken tokens now nodeId tok \<and> validateToken tokens now' nodeId tok' \<longrightarrow> tok = tok')
   \<and> (old \<noteq> secret \<longrightarrow>
        \<not> validateToken (snd (generateToken tokens tza issued issued' secret nodeId)) now nodeId old)
   \<and> revokeToken tokens nodeId = (tokens nodeId \<noteq> None, tokens(nodeId := None))
   \<and> \<not> validateToken (snd (revokeToken tokens nodeId)) now nodeId tok
   \<and> (\<forall>info e. tokens nodeId = Some info \<and> expiresAt info = Some e \<and> now > e \<longrightarrow>
        \<not> validateToken tokens now nodeId tok)"
proof -
  have a: "validateToken tokens now nodeId tok \<longleftrightarrow>
      (\<exists>info. tokens nodeId = Some info \<and> token info = tok \<and> \<not> dateAfter now (expiresAt info))"
    by (auto simp: validateToken_def split: option.splits)
  have b: "generateToken tokens tza issued issued' secret nodeId =
       (secret, tokens(nodeId \<mapsto>
          \<lparr>token = secret, expiresAt = TimeClip (UTC tza (LocalTime tza issued + 30 * msPerDay)),
           createdAt = issued'\<rparr>))"
    by (rule generateToken_eq)
  have b': "tza issued True = tza (LocalTime tza issued + 30 * msPerDay) False \<longrightarrow>
        generateToken tokens tza issued issued' secret nodeId =
          (secret, tokens(nodeId \<mapsto>
             \<lparr>token = secret, expiresAt = TimeClip (issued + 30 * msPerDay), createdAt = issued'\<rparr>))"
  proof
    assume eq: "tza issued True = tza (LocalTime tza issued + 30 * msPerDay) False"
    have "UTC tza (LocalTime tza issued + 30 * msPerDay) = issued + 30 * msPerDay"
      unfolding UTC_def eq [symmetric] by (simp add: LocalTime_def)
    then show "generateToken tokens tza issued issued' secret nodeId =
          (secret, tokens(nodeId \<mapsto>
             \<lparr>token = secret, expiresAt = TimeClip (issued + 30 * msPerDay), createdAt = issued'\<rparr>))"
      by (simp add: b)
  qed
  have c: "validateToken (snd (generateToken tokens tza issued issued' secret nodeId)) now nodeId tok \<longleftrightarrow>
        tok = secret \<and> \<not> dateAfter now (TimeClip (UTC tza (LocalTime tza issued + 30 * msPerDay)))"
    by (auto simp: b validateToken_def)
  have d: "validateToken tokens now nodeId tok \<and> validateToken tokens now' nodeId tok' \<longrightarrow> tok = tok'"
    by (auto simp: validateToken_def split: option.splits if_splits)
  have p: "old \<noteq> secret \<longrightarrow>
      \<not> validateToken (snd (generateToken tokens tza issued issued' secret nodeId)) now nodeId old"
    by (auto simp: b validateToken_def)
  have r: "revokeToken tokens nodeId = (tokens nodeId \<noteq> None, tokens(nodeId := None))"
    by (cases "tokens nodeId") (auto simp: revokeToken_def)
  have e: "\<not> validateToken (snd (revokeToken tokens nodeId)) now nodeId tok"
    by (simp add: r validateToken_def)
  have f: "\<forall>info e. tokens nodeId = Some info \<and> expiresAt info = Some e \<and> now > e \<longrightarrow>
      \<not> validateToken tokens now nodeId tok"
    by (auto simp: validateToken_def dateAfter_def)
  show ?thesis
    by (intro conjI) (fact a, fact b, fact b', fact c, fact d, fact p, fact r, fact e, fact f)
qed

text \<open>
  The theorem at a token issued at time 1000: without a change of offset it validates
  until thirty days later, with the change until an hour before that; no other secret
  and no other node validates, and neither does it after a second issuance with another
  secret or after a revocation.
\<close>

theorem validateToken_generateToken_witness:
  "validateToken (exampleTokens zoneUTC) 1000 ''node-1'' ''secret-a''
   \<and> validateToken (exampleTokens zoneUTC) (1000 + 30 * msPerDay) ''node-1'' ''secret-a''
   \<and> \<not> validateToken (exampleTokens zoneUTC) (1001 + 30 * msPerDay) ''node-1'' ''secret-a''
   \<and> validateToken (exampleTokens zoneWithChange) (1000 + 30 * msPerDay - 3600000) ''node-1'' ''secret-a''
   \<and> \<not> validateToken (exampleTokens zoneWithChange) (1001 + 30 * msPerDay - 3600000) ''node-1'' ''secret-a''
   \<and> \<not> validateToken (exampleTokens zoneUTC) 1000 ''node-1'' ''secret-b''
   \<and> \<not> validateToken (exampleTokens zoneUTC) 1000 ''node-2'' ''secret-a''
   \<and> \<not> validateToken (snd (generateToken (exampleTokens zoneUTC) zoneUTC 2000 2001 ''secret-b'' ''node-1''))
          2000 ''node-1'' ''secret-a''
   \<and> validateToken (snd (generateToken (exampleTokens zoneUTC) zoneUTC 2000 2001 ''secret-b'' ''node-1''))
        2000 ''node-1'' ''secret-b''
   \<and> \<not> validateToken (snd (revokeToken (exampleTokens zoneUTC) ''node-1'')) 1000 ''node-1'' ''secret-a''"
proof -
  note iff = validateToken_generateToken [THEN conjunct1]
  note fresh = validateToken_generateToken
                 [THEN conjunct2, THEN conjunct2, THEN conjunct2, THEN conjunct1]
  note earlier = validateToken_generateToken
                 [THEN conjunct2, THEN conjunct2, THEN conjunct2, THEN conjunct2, THEN conjunct2,
                  THEN conjunct1, rule_format]
  note revoked = validateToken_generateToken
                 [THEN conjunct2, THEN conjunct2, THEN conjunct2, THEN conjunct2, THEN conjunct2,
                  THEN conjunct2, THEN conjunct2, THEN conjunct1]
  have u: "validateToken (exampleTokens zoneUTC) n ''node-1'' t \<longleftrightarrow>
             t = ''secret-a'' \<and> n \<le> 1000 + 30 * msPerDay" for n t
    unfolding exampleTokens_def
    by (auto simp: fresh LocalTime_def UTC_def zoneUTC_def TimeClip_def dateAfter_def msPerDay_def)
  have c: "validateToken (exampleTokens zoneWithChange) n ''node-1'' t \<longleftrightarrow>
             t = ''secret-a'' \<and> n \<le> 1000 + 30 * msPerDay - 3600000" for n t
    unfolding exampleTokens_def
    by (auto simp: fresh LocalTime_def UTC_def zoneWithChange_def TimeClip_def dateAfter_def msPerDay_def)
  have none: "exampleTokens zoneUTC ''node-2'' = None"
    by (simp add: exampleTokens_UTC)
  have w1: "validateToken (exampleTokens zoneUTC) 1000 ''node-1'' ''secret-a''"
    by (simp add: u msPerDay_def)
  have w2: "validateToken (exampleTokens zoneUTC) (1000 + 30 * msPerDay) ''node-1'' ''secret-a''"
    by (simp add: u)
  have w3: "\<not> validateToken (exampleTokens zoneUTC) (1001 + 30 * msPerDay) ''node-1'' ''secret-a''"
    by (simp add: u)
  have w4: "validateToken (exampleTokens zoneWithChange) (1000 + 30 * msPerDay - 3600000) ''node-1'' ''secret-a''"
    by (simp add: c)
  have w5: "\<not> validateToken (exampleTokens zoneWithChange) (1001 + 30 * msPerDay - 3600000) ''node-1'' ''secret-a''"
    by (simp add: c)
  have w6: "\<not> validateToken (exampleTokens zoneUTC) 1000 ''node-1'' ''secret-b''"
    by (simp add: u)
  have w7: "\<not> validateToken (exampleTokens zoneUTC) 1000 ''node-2'' ''secret-a''"
    by (simp add: iff [of "exampleTokens zoneUTC" 1000 "''node-2''" "''secret-a''"] none)
  have w8: "\<not> validateToken (snd (generateToken (exampleTokens zoneUTC) zoneUTC 2000 2001 ''secret-b'' ''node-1''))
          2000 ''node-1'' ''secret-a''"
    by (rule earlier) simp
  have w9: "validateToken (snd (generateToken (exampleTokens zoneUTC) zoneUTC 2000 2001 ''secret-b'' ''node-1''))
        2000 ''node-1'' ''secret-b''"
    by (simp add: fresh LocalTime_def UTC_def zoneUTC_def TimeClip_def dateAfter_def msPerDay_def)
  have w10: "\<not> validateToken (snd (revokeToken (exampleTokens zoneUTC) ''node-1'')) 1000 ''node-1'' ''secret-a''"
    by (rule revoked)
  show ?thesis
    by (intro conjI) (fact w1, fact w2, fact w3, fact w4, fact w5, fact w6, fact w7, fact w8, fact w9, fact w10)
qed

text \<open>
  Claim C9, as stated, fails. The two ends of the window come from two readings of the
  clock, so with 317 nanoseconds between them the certificate expires 317 nanoseconds
  later than 365 days after it was issued. The encoded window keeps whole seconds: the
  certificate issued at one and a half seconds validates at 1.2 seconds, before it was
  issued, and does not validate 365 days after it was issued.
\<close>

theorem GenerateCertificate_window_counterexample:
  "exampleIssue = Inr (exampleCertificate, snd (projr exampleIssue))
   \<and> IssuedAt exampleCertificate = 1500000000
   \<and> ExpiresAt exampleCertificate = 1500000317 + 365 * 24 * Hour
   \<and> ExpiresAt exampleCertificate \<noteq> IssuedAt exampleCertificate + 365 * 24 * Hour
   \<and> ValidateClientCertificate 1200000000 (Certificate exampleCertificate) = None
   \<and> ValidateClientCertificate (IssuedAt exampleCertificate + 365 * 24 * Hour)
        (Certificate exampleCertificate) \<noteq> None"
proof -
  from exampleIssue_eq obtain x where
    e: "exampleIssue =
         Inr (\<lparr>Certificate.ID = ''c1'', Certificate.NodeID = ''node-1'',
                Certificate = PEM \<lparr>Type = ''CERTIFICATE'', Bytes = DERCertificate x\<rparr>,
                PrivateKey = PEM \<lparr>Type = ''PRIVATE KEY'', Bytes = DERPrivateKey 42\<rparr>,
                IssuedAt = 1500000000, ExpiresAt = 1500000317 + 365 * 24 * Hour\<rparr>,
              [''c1'' \<mapsto>
                \<lparr>Certificate.ID = ''c1'', Certificate.NodeID = ''node-1'',
                 Certificate = PEM \<lparr>Type = ''CERTIFICATE'', Bytes = DERCertificate x\<rparr>,
                 PrivateKey = PEM \<lparr>Type = ''PRIVATE KEY'', Bytes = DERPrivateKey 42\<rparr>,
                 IssuedAt = 1500000000, ExpiresAt = 1500000317 + 365 * 24 * Hour\<rparr>])"
    and x: "NotBefore x = 1000000000" "NotAfter x = 1000000000 + 365 * 24 * Hour"
    by blast
  have ce: "exampleCertificate =
         \<lparr>Certificate.ID = ''c1'', Certificate.NodeID = ''node-1'',
          Certificate = PEM \<lparr>Type = ''CERTIFICATE'', Bytes = DERCertificate x\<rparr>,
          PrivateKey = PEM \<lparr>Type = ''PRIVATE KEY'', Bytes = DERPrivateKey 42\<rparr>,
          IssuedAt = 1500000000, ExpiresAt = 1500000317 + 365 * 24 * Hour\<rparr>"
    unfolding exampleCertificate_def e by simp
  have ex: "exampleIssue = Inr (exampleCertificate, snd (projr exampleIssue))"
    unfolding ce unfolding e by simp
  show ?thesis
    using x ex by (simp add: ce ValidateClientCertificate_window Hour_def Minute_def Second_def)
qed

text \<open>
  Claim C9, amended. \<^verbatim>\<open>GenerateCertificate\<close> returns a certificate exactly when the three
  library calls succeed, and stores it under its fresh id. The certificate is issued at
  the first reading of the clock and expires 365 days after the second reading. Its PEM
  text holds a certificate whose validity window is these two instants, each cut to
  whole seconds, and \<^verbatim>\<open>ValidateClientCertificate\<close> accepts that text at the instants of
  this encoded window, ends included, and at no other instant. When both readings are
  the same whole second, the window is exactly the 365 days from the time of issue.
\<close>

theorem GenerateCertificate_validity:
  "((\<exists>cert certificates'.
       GenerateCertificate lib now now' certificates nodeID commonName dnsNames ipAddresses =
         Inr (cert, certificates'))
     \<longleftrightarrow> (\<exists>key. rsa_GenerateKey lib = Inr key) \<and> x509_CreateCertificate_error lib = None
           \<and> x509_MarshalPKCS8PrivateKey_error lib = None)
   \<and> (\<forall>cert certificates'.
        GenerateCertificate lib now now' certificates nodeID commonName dnsNames ipAddresses =
          Inr (cert, certificates') \<longrightarrow>
        Certificate.ID cert = generateID lib
        \<and> Certificate.NodeID cert = nodeID
        \<and> certificates' = certificates(generateID lib \<mapsto> cert)
        \<and> IssuedAt cert = now
        \<and> ExpiresAt cert = now' + 365 * 24 * Hour
        \<and> (\<exists>key. rsa_GenerateKey lib = Inr key
               \<and> PrivateKey cert = PEM \<lparr>Type = ''PRIVATE KEY'', Bytes = DERPrivateKey key\<rparr>)
        \<and> (\<exists>x. pem_Decode (Certificate cert) = Some \<lparr>Type = ''CERTIFICATE'', Bytes = DERCertificate x\<rparr>
               \<and> NotBefore x = wholeSeconds (IssuedAt cert)
               \<and> NotAfter x = wholeSeconds (ExpiresAt cert)
               \<and> CommonName (Subject x) = commonName \<and> DNSNames x = dnsNames)
        \<and> (\<forall>t. ValidateClientCertificate t (Certificate cert) = None
               \<longleftrightarrow> wholeSeconds (IssuedAt cert) \<le> t \<and> t \<le> wholeSeconds (ExpiresAt cert))
        \<and> (now' = now \<and> Second dvd now \<longrightarrow>
              ExpiresAt cert = IssuedAt cert + 365 * 24 * Hour
              \<and> (\<forall>t. ValidateClientCertificate t (Certificate cert) = None
                     \<longleftrightarrow> IssuedAt cert \<le> t \<and> t \<le> IssuedAt cert + 365 * 24 * Hour)))"
proof (intro conjI allI impI)
  show "(\<exists>cert certificates'.
       GenerateCertificate lib now now' certificates nodeID commonName dnsNames ipAddresses =
         Inr (cert, certificates'))
     \<longleftrightarrow> (\<exists>key. rsa_GenerateKey lib = Inr key) \<and> x509_CreateCertificate_error lib = None
           \<and> x509_MarshalPKCS8PrivateKey_error lib = None"
  proof
    assume ok: "\<exists>cert certificates'.
       GenerateCertificate lib now now' certificates nodeID commonName dnsNames ipAddresses =
         Inr (cert, certificates')"
    show "(\<exists>key. rsa_GenerateKey lib = Inr key) \<and> x509_CreateCertificate_error lib = None
           \<and> x509_MarshalPKCS8PrivateKey_error lib = None"
    proof (rule ccontr)
      assume "\<not> ((\<exists>key. rsa_GenerateKey lib = Inr key) \<and> x509_CreateCertificate_error lib = None
           \<and> x509_MarshalPKCS8PrivateKey_error lib = None)"
      then have "(\<exists>err. rsa_GenerateKey lib = Inl err) \<or> x509_CreateCertificate_error lib \<noteq> None
           \<or> x509_MarshalPKCS8PrivateKey_error lib \<noteq> None"
        by (cases "rsa_GenerateKey lib") auto
      from GenerateCertificate_fails
             [OF this, of now now' certificates nodeID commonName dnsNames ipAddresses] ok
      show False by fastforce
    qed
  next
    assume "(\<exists>key. rsa_GenerateKey lib = Inr key) \<and> x509_CreateCertificate_error lib = None
           \<and> x509_MarshalPKCS8PrivateKey_error lib = None"
    then obtain key where "rsa_GenerateKey lib = Inr key" "x509_CreateCertificate_error lib = None"
      "x509_MarshalPKCS8PrivateKey_error lib = None" by blast
    from GenerateCertificate_returns [OF this]
    show "\<exists>cert certificates'.
       GenerateCertificate lib now now' certificates nodeID commonName dnsNames ipAddresses =
         Inr (cert, certificates')" by blast
  qed
next
  fix cert certificates'
  assume g: "GenerateCertificate lib now now' certificates nodeID commonName dnsNames ipAddresses =
          Inr (cert, certificates')"
  have "\<not> ((\<exists>err. rsa_GenerateKey lib = Inl err) \<or> x509_CreateCertificate_error lib \<noteq> None
           \<or> x509_MarshalPKCS8PrivateKey_error lib \<noteq> None)"
    using GenerateCertificate_fails [of lib now now' certificates nodeID commonName dnsNames ipAddresses] g
    by fastforce
  then obtain key where key: "rsa_GenerateKey lib = Inr key" and
      ok: "x509_CreateCertificate_error lib = None" "x509_MarshalPKCS8PrivateKey_error lib = None"
    by (cases "rsa_GenerateKey lib") auto
  from GenerateCertificate_returns
         [OF key ok, of now now' certificates nodeID commonName dnsNames ipAddresses] g
  obtain x where c: "cert = \<lparr>Certificate.ID = generateID lib, Certificate.NodeID = nodeID,
                  Certificate = PEM \<lparr>Type = ''CERTIFICATE'', Bytes = DERCertificate x\<rparr>,
                  PrivateKey = PEM \<lparr>Type = ''PRIVATE KEY'', Bytes = DERPrivateKey key\<rparr>,
                  IssuedAt = now, ExpiresAt = now' + 365 * 24 * Hour\<rparr>"
    and s: "certificates' = certificates(generateID lib \<mapsto> cert)"
    and x: "NotBefore x = wholeSeconds now" "NotAfter x = wholeSeconds (now' + 365 * 24 * Hour)"
      "CommonName (Subject x) = commonName" "DNSNames x = dnsNames"
    by auto
  show "Certificate.ID cert = generateID lib" by (simp add: c)
  show "Certificate.NodeID cert = nodeID" by (simp add: c)
  show "certificates' = certificates(generateID lib \<mapsto> cert)" by (rule s)
  show "IssuedAt cert = now" by (simp add: c)
  show "ExpiresAt cert = now' + 365 * 24 * Hour" by (simp add: c)
  show "\<exists>key. rsa_GenerateKey lib = Inr key
               \<and> PrivateKey cert = PEM \<lparr>Type = ''PRIVATE KEY'', Bytes = DERPrivateKey key\<rparr>"
    using key by (simp add: c)
  show "\<exists>x. pem_Decode (Certificate cert) = Some \<lparr>Type = ''CERTIFICATE'', Bytes = DERCertificate x\<rparr>
               \<and> NotBefore x = wholeSeconds (IssuedAt cert)
               \<and> NotAfter x = wholeSeconds (ExpiresAt cert)
               \<and> CommonName (Subject x) = commonName \<and> DNSNames x = dnsNames"
    using x by (simp add: c)
  show "ValidateClientCertificate t (Certificate cert) = None
               \<longleftrightarrow> wholeSeconds (IssuedAt cert) \<le> t \<and> t \<le> wholeSeconds (ExpiresAt cert)" for t
    using x by (simp add: c ValidateClientCertificate_window)
  have hd: "Second dvd 365 * 24 * Hour"
    by (simp add: Hour_def Minute_def)
  {
    assume a: "now' = now \<and> Second dvd now"
    then have w: "wholeSeconds now = now" "wholeSeconds (now + 365 * 24 * Hour) = now + 365 * 24 * Hour"
      using hd by (simp_all add: wholeSeconds_dvd)
    show "ExpiresAt cert = IssuedAt cert + 365 * 24 * Hour"
      using a by (simp add: c)
    show "ValidateClientCertificate t (Certificate cert) = None
               \<longleftrightarrow> IssuedAt cert \<le> t \<and> t \<le> IssuedAt cert + 365 * 24 * Hour" for t
      using a x w by (simp add: c ValidateClientCertificate_window)
  }
qed

text \<open>
  The example certificate validates from the whole second of its issue to the whole
  second of its expiry, and not one nanosecond before or after.
\<close>

theorem GenerateCertificate_validity_witness:
  "exampleIssue = Inr (exampleCertificate, snd (projr exampleIssue))
   \<and> IssuedAt exampleCertificate = 1500000000
   \<and> ExpiresAt exampleCertificate = 1500000317 + 365 * 24 * Hour
   \<and> ValidateClientCertificate 1000000000 (Certificate exampleCertificate) = None
   \<and> ValidateClientCertificate 999999999 (Certificate exampleCertificate) \<noteq> None
   \<and> ValidateClientCertificate (1000000000 + 365 * 24 * Hour) (Certificate exampleCertificate) = None
   \<and> ValidateClientCertificate (1000000001 + 365 * 24 * Hour) (Certificate exampleCertificate) \<noteq> None"
proof -
  note returns = GenerateCertificate_validity [THEN conjunct1, THEN iffD2]
  note window = GenerateCertificate_validity [THEN conjunct2, rule_format]
  have "(\<exists>key. rsa_GenerateKey exampleLibrary = Inr key)
        \<and> x509_CreateCertificate_error exampleLibrary = None
        \<and> x509_MarshalPKCS8PrivateKey_error exampleLibrary = None"
    by (simp add: exampleLibrary_def)
  from returns [OF this] obtain cert certificates' where
    g: "GenerateCertificate exampleLibrary 1500000000 1500000317 Map.empty ''node-1'' ''edge-1''
          [''edge-1.local''] [''10.0.0.1''] = Inr (cert, certificates')"
    by blast
  then have ex: "exampleIssue = Inr (cert, certificates')"
    by (simp add: exampleIssue_def)
  have ce: "exampleCertificate = cert"
    unfolding exampleCertificate_def ex by simp
  have i: "IssuedAt cert = 1500000000" and e: "ExpiresAt cert = 1500000317 + 365 * 24 * Hour"
    and v: "ValidateClientCertificate t (Certificate cert) = None
              \<longleftrightarrow> wholeSeconds (IssuedAt cert) \<le> t \<and> t \<le> wholeSeconds (ExpiresAt cert)" for t
    using window [OF g] by blast+
  have w1: "wholeSeconds 1500000000 = 1000000000"
    by (simp add: wholeSeconds_def Second_def)
  have w2: "wholeSeconds (1500000317 + 8760 * Hour) = 1000000000 + 8760 * Hour"
    by (simp add: wholeSeconds_def Hour_def Minute_def Second_def)
  have h: "(0::int) < Hour" by (simp add: Hour_def Minute_def Second_def)
  have ex': "exampleIssue = Inr (cert, snd (projr exampleIssue))"
    unfolding ex by simp
  show ?thesis
    unfolding ce using ex' i e h by (simp add: v w1 w2)
qed

text \<open>
  Claim C10 fails on the code. A request to scale to -1 replicas passes the binding
  and leaves a pending workload with a negative count. With two candidates the selection
  reaches \<^verbatim>\<open>candidates[:maxNodes]\<close> with a negative bound; the panic ends the tick and,
  in its goroutine, the process.
\<close>

theorem scheduleWorkloads_negative_replicas_panic:
  "exampleScaled (- 1) ''w1'' =
     Some ((exampleWorkload 2 [])\<lparr>Workload.Replicas := - 1,
        Workload.Status := WorkloadStatusPending, Workload.UpdatedAt := 1\<rparr>)
   \<and> selectEdgeFirstNodes (candidateNodes exampleNodes exampleOrder [])
        ((exampleWorkload 2 [])\<lparr>Workload.Replicas := - 1,
           Workload.Status := WorkloadStatusPending, Workload.UpdatedAt := 1\<rparr>) =
       Panic (SliceBoundsOutOfRange (- 1))
   \<and> scheduleWorkloads exampleNodes exampleNodeOrder 2 [''w1''] (exampleScaled (- 1)) =
       Panic (SliceBoundsOutOfRange (- 1))"
  by (simp add: exampleScaled_eq exampleNodeOrder_def scheduleWorkload_def
        selectNodesForWorkload_any exampleWorkload_fields example_candidates_all
        selectEdgeFirstNodes_def)

end
